theory Spec2Isabelle
  imports Complex_Main "HOL-Library.Multiset"
begin

section \<open>Errors and two-dimensional arrays\<close>

text \<open>
  The exceptions the module can end with. \<open>ParameterError\<close> is librosa's own
  (\<open>util.exceptions.ParameterError\<close>); the others are the built-in exceptions raised by
  indexing, by numpy and by scipy. \<open>AggregateError\<close> stands for whatever exception a
  caller-supplied aggregation function raises.
\<close>

datatype error =
    ParameterError
  | IndexError
  | TypeError
  | ValueError
  | ZeroDivisionError
  | RuntimeError
  | AttributeError
  | AggregateError

text \<open>
  A 2-D \<open>np.ndarray\<close>: its shape and its entries. Only the entries inside the shape
  are meaningful. A 1-D array is a list.
\<close>

datatype 'a ndarray = NDArray (shape0: nat) (shape1: nat) (elem: "nat \<Rightarrow> nat \<Rightarrow> 'a")

definition of_rows :: "'a list list \<Rightarrow> 'a ndarray" where
  "of_rows rows =
     NDArray (length rows) (case rows of [] \<Rightarrow> 0 | r # _ \<Rightarrow> length r) (\<lambda>i j. rows ! i ! j)"

definition to_rows :: "'a ndarray \<Rightarrow> 'a list list" where
  "to_rows A = map (\<lambda>i. map (\<lambda>j. elem A i j) [0..<shape1 A]) [0..<shape0 A]"

text \<open>Elementwise equality of two arrays of the same shape (\<open>np.array_equal\<close>).\<close>

definition array_equal :: "'a ndarray \<Rightarrow> 'a ndarray \<Rightarrow> bool" where
  "array_equal A B \<longleftrightarrow>
     shape0 A = shape0 B \<and> shape1 A = shape1 B \<and> to_rows A = to_rows B"

text \<open>
  \<open>S.shape[axis]\<close> for a 2-D array: indexing the shape tuple with a Python integer, where
  a negative index counts from the end and an index outside \<open>-2..1\<close> raises IndexError.
\<close>

definition norm_axis :: "int \<Rightarrow> error + nat" where
  "norm_axis axis =
     (if axis = 0 \<or> axis = - 2 then Inr 0
      else if axis = 1 \<or> axis = - 1 then Inr 1
      else Inl IndexError)"

definition shape_at :: "'a ndarray \<Rightarrow> nat \<Rightarrow> nat" where
  "shape_at A ax = (if ax = 0 then shape0 A else shape1 A)"

text \<open>The length of a slice taken at one index of axis \<open>ax\<close>: the other dimension.\<close>

definition slice_len :: "'a ndarray \<Rightarrow> nat \<Rightarrow> nat" where
  "slice_len A ax = (if ax = 0 then shape1 A else shape0 A)"

text \<open>\<open>A[i, :]\<close> for axis 0 and \<open>A[:, i]\<close> for axis 1.\<close>

definition get_slice :: "'a ndarray \<Rightarrow> nat \<Rightarrow> nat \<Rightarrow> 'a list" where
  "get_slice A ax i =
     (if ax = 0 then map (\<lambda>c. elem A i c) [0..<shape1 A]
      else map (\<lambda>r. elem A r i) [0..<shape0 A])"

text \<open>The entry at position \<open>k\<close> of the slice at index \<open>i\<close> of axis \<open>ax\<close>.\<close>

definition entry :: "'a ndarray \<Rightarrow> nat \<Rightarrow> nat \<Rightarrow> nat \<Rightarrow> 'a" where
  "entry A ax i k = (if ax = 0 then elem A i k else elem A k i)"

section \<open>Element types\<close>

text \<open>
  The dtype of a real array. The entries of an array are kept as real numbers whatever
  the dtype; an array of dtype \<open>int64\<close> holds integers. A value assigned into an
  \<open>int64\<close> array is converted as C converts a double: it is truncated toward zero, and
  a value outside the 64-bit range becomes the smallest integer (the conversion of
  x86-64). Other dtypes are not modelled.
\<close>

datatype dtype = Float64 | Int64

definition to_int64 :: "real \<Rightarrow> int" where
  "to_int64 x =
     (let t = (if 0 \<le> x then \<lfloor>x\<rfloor> else \<lceil>x\<rceil>) in
      if - (2 ^ 63) \<le> t \<and> t < 2 ^ 63 then t else - (2 ^ 63))"

definition as_dtype :: "dtype \<Rightarrow> real \<Rightarrow> real" where
  "as_dtype dt x = (case dt of Float64 \<Rightarrow> x | Int64 \<Rightarrow> of_int (to_int64 x))"

section \<open>nn_filter\<close>

text \<open>
  The similarity graph \<open>rec\<close> is a matrix of weights; scipy's sparse storage is not
  modelled. \<open>rec[i].nonzero()[-1]\<close> are the columns of row \<open>i\<close> that hold a nonzero
  entry, in increasing order.
\<close>

definition nonzero_cols :: "real ndarray \<Rightarrow> nat \<Rightarrow> nat list" where
  "nonzero_cols rec i = filter (\<lambda>j. elem rec i j \<noteq> 0) [0..<shape1 rec]"

text \<open>
  \<open>np.take(S, targets, axis=axis)\<close>: the slices of \<open>S\<close> at the given indices, stacked
  along \<open>axis\<close>. An index outside the axis raises IndexError.
\<close>

definition np_take :: "real ndarray \<Rightarrow> nat list \<Rightarrow> nat \<Rightarrow> error + real ndarray" where
  "np_take S targets ax =
     (if list_ex (\<lambda>t. shape_at S ax \<le> t) targets then Inl IndexError
      else if ax = 0 then
        Inr (NDArray (length targets) (shape1 S) (\<lambda>r c. elem S (targets ! r) c))
      else
        Inr (NDArray (shape0 S) (length targets) (\<lambda>r c. elem S r (targets ! c))))"

text \<open>
  \<open>np.mean(a, axis=axis)\<close>, in exact arithmetic: the rounding and the overflow of
  numpy's sum are not modelled. Over an empty axis numpy gives nan, which is no real
  number: the model gives no result there (\<open>nn_filter\<close> never reduces an empty gather).
\<close>

definition np_mean :: "real ndarray \<Rightarrow> nat \<Rightarrow> real list option" where
  "np_mean a ax =
     (if shape_at a ax = 0 then None
      else if ax = 0 then
        Some (map (\<lambda>c. sum_list (map (\<lambda>r. elem a r c) [0..<shape0 a]) / real (shape0 a))
                [0..<shape1 a])
      else
        Some (map (\<lambda>r. sum_list (map (\<lambda>c. elem a r c) [0..<shape1 a]) / real (shape1 a))
                [0..<shape0 a]))"

text \<open>
  The weights handed to \<open>np.average\<close>: \<open>rec[i, targets].toarray()\<close> has shape
  \<open>(1, k)\<close>, and \<open>squeeze()\<close> drops every axis of length one. For \<open>k = 1\<close> that leaves
  a 0-d array, for any other \<open>k\<close> a 1-D array of length \<open>k\<close>.
\<close>

datatype weights = W0 real | W1 "real list"

definition squeeze :: "real list \<Rightarrow> weights" where
  "squeeze ws = (case ws of [w] \<Rightarrow> W0 w | _ \<Rightarrow> W1 ws)"

text \<open>
  \<open>np.average(a, axis=axis, weights=w)\<close> for a 2-D \<open>a\<close>, whose shape differs from the
  weights': numpy then wants 1-D weights (TypeError otherwise) of the axis' length
  (ValueError otherwise) that do not sum to zero (ZeroDivisionError otherwise), and returns
  the weighted sum along the axis divided by the sum of the weights (in exact arithmetic).
\<close>

definition np_average :: "real ndarray \<Rightarrow> nat \<Rightarrow> weights \<Rightarrow> error + real list" where
  "np_average a ax w =
     (case w of
        W0 x \<Rightarrow> Inl TypeError
      | W1 ws \<Rightarrow>
          if length ws \<noteq> shape_at a ax then Inl ValueError
          else if sum_list ws = 0 then Inl ZeroDivisionError
          else if ax = 0 then
            Inr (map (\<lambda>c. sum_list (map (\<lambda>r. elem a r c * ws ! r) [0..<shape0 a]) / sum_list ws)
                   [0..<shape1 a])
          else
            Inr (map (\<lambda>r. sum_list (map (\<lambda>c. elem a r c * ws ! c) [0..<shape1 a]) / sum_list ws)
                   [0..<shape0 a]))"

text \<open>
  The \<open>aggregate\<close> argument. The code only asks whether it is \<open>np.average\<close>; any other
  function is called as \<open>aggregate(neighbors, axis=axis)\<close> and either returns a 1-D array
  or raises. Which exception it raises is up to the function: the model records that it
  raised (\<open>None\<close>), and \<open>call_aggregate\<close> reports it as \<open>AggregateError\<close>.
\<close>

datatype aggregate = NpAverage | Other "real ndarray \<Rightarrow> nat \<Rightarrow> real list option"

text \<open>
  \<open>s_out[tuple(index)] = v\<close> with \<open>index[axis] = i\<close>: the slice is overwritten by a
  1-D value of the slice's length; a value of length one is broadcast; any other length
  raises ValueError. The values are converted to the dtype of \<open>s_out\<close>, which is the
  dtype of \<open>S\<close> (\<open>s_out = S.copy()\<close>).
\<close>

definition broadcast_to :: "nat \<Rightarrow> real list \<Rightarrow> real list" where
  "broadcast_to n v = (if length v = n then v else replicate n (v ! 0))"

definition set_slice ::
  "dtype \<Rightarrow> real ndarray \<Rightarrow> nat \<Rightarrow> nat \<Rightarrow> real list \<Rightarrow> error + real ndarray" where
  "set_slice dt A ax i v =
     (if shape_at A ax \<le> i then Inl IndexError
      else if length v \<noteq> slice_len A ax \<and> length v \<noteq> 1 then Inl ValueError
      else
        let v' = map (as_dtype dt) (broadcast_to (slice_len A ax) v) in
        Inr (NDArray (shape0 A) (shape1 A)
               (\<lambda>r c. if ax = 0 then (if r = i then v' ! c else elem A r c)
                      else (if c = i then v' ! r else elem A r c))))"

text \<open>Lines 479-483: the aggregation of one gather.\<close>

definition call_aggregate ::
  "aggregate \<Rightarrow> real ndarray \<Rightarrow> nat \<Rightarrow> nat list \<Rightarrow> real ndarray \<Rightarrow> nat \<Rightarrow> error + real list" where
  "call_aggregate aggregate rec i targets neighbors ax =
     (case aggregate of
        NpAverage \<Rightarrow> np_average neighbors ax (squeeze (map (\<lambda>t. elem rec i t) targets))
      | Other g \<Rightarrow> (case g neighbors ax of None \<Rightarrow> Inl AggregateError | Some v \<Rightarrow> Inr v))"

text \<open>Lines 470-483: one iteration of the loop, for the index \<open>i\<close>.\<close>

definition nn_iter ::
  "dtype \<Rightarrow> real ndarray \<Rightarrow> real ndarray \<Rightarrow> aggregate \<Rightarrow> nat \<Rightarrow> nat \<Rightarrow> real ndarray
     \<Rightarrow> error + real ndarray" where
  "nn_iter dt S rec aggregate ax i s_out =
     (let targets = nonzero_cols rec i in
      if targets = [] then Inr s_out
      else
        case np_take S targets ax of
          Inl e \<Rightarrow> Inl e
        | Inr neighbors \<Rightarrow>
            (case call_aggregate aggregate rec i targets neighbors ax of
               Inl e \<Rightarrow> Inl e
             | Inr v \<Rightarrow> set_slice dt s_out ax i v))"

text \<open>Line 469: the loop \<open>for i in range(rec.shape[0])\<close>, threading \<open>s_out\<close>.\<close>

fun nn_loop ::
  "dtype \<Rightarrow> real ndarray \<Rightarrow> real ndarray \<Rightarrow> aggregate \<Rightarrow> nat \<Rightarrow> nat list \<Rightarrow> real ndarray
     \<Rightarrow> error + real ndarray" where
  "nn_loop dt S rec aggregate ax [] s_out = Inr s_out"
| "nn_loop dt S rec aggregate ax (i # rest) s_out =
     (case nn_iter dt S rec aggregate ax i s_out of
        Inl e \<Rightarrow> Inl e
      | Inr s_out' \<Rightarrow> nn_loop dt S rec aggregate ax rest s_out')"

text \<open>Lines 450-451: \<open>aggregate\<close> defaults to \<open>np.mean\<close>.\<close>

definition resolve_aggregate :: "aggregate option \<Rightarrow> aggregate" where
  "resolve_aggregate aggregate = (case aggregate of None \<Rightarrow> Other np_mean | Some a \<Rightarrow> a)"

text \<open>
  \<open>nn_filter(S, rec, aggregate, axis)\<close>, where \<open>S\<close> is given by its dtype \<open>dt\<close> and its
  entries. \<open>recurrence_matrix\<close> stands for
  \<open>segment.recurrence_matrix(S, axis=axis, sparse=True, **kwargs)\<close>, which builds the
  graph when none is supplied; it is a parameter of the model. A supplied graph that is
  not sparse is converted, which does not change its entries.
\<close>

definition nn_filter ::
  "(real ndarray \<Rightarrow> int \<Rightarrow> error + real ndarray) \<Rightarrow> dtype \<Rightarrow> real ndarray
     \<Rightarrow> real ndarray option \<Rightarrow> aggregate option \<Rightarrow> int \<Rightarrow> error + real ndarray" where
  "nn_filter recurrence_matrix dt S rec aggregate axis =
     (let aggregate' = resolve_aggregate aggregate in
      case (case rec of None \<Rightarrow> recurrence_matrix S axis | Some r \<Rightarrow> Inr r) of
        Inl e \<Rightarrow> Inl e
      | Inr rec' \<Rightarrow>
          (case norm_axis axis of
             Inl e \<Rightarrow> Inl e
           | Inr ax \<Rightarrow>
               if shape0 rec' \<noteq> shape_at S ax \<or> shape0 rec' \<noteq> shape1 rec'
               then Inl ParameterError
               else nn_loop dt S rec' aggregate' ax [0..<shape0 rec'] S))"

section \<open>Floating-point values\<close>

text \<open>
  The entries of the arrays hpss computes are real numbers or one of the special
  values \<open>nan\<close>, \<open>inf\<close> and \<open>-inf\<close> that numpy produces instead of raising. Rounding,
  overflow and signed zeros are not modelled: arithmetic on finite values is exact.
\<close>

datatype npfloat = Fin real | PInf | NInf | NaN

text \<open>
  \<open>x ** p\<close> on floats: \<open>x ** 0\<close> is 1; a positive base gives the real power; \<open>0 ** p\<close> is
  0 for positive \<open>p\<close> and \<open>inf\<close> for negative \<open>p\<close>; a negative base has a power only for
  an integer exponent, and gives \<open>nan\<close> otherwise.
\<close>

definition np_power :: "real \<Rightarrow> real \<Rightarrow> npfloat" where
  "np_power x p =
     (if p = 0 then Fin 1
      else if 0 < x then Fin (x powr p)
      else if x = 0 then (if 0 < p then Fin 0 else PInf)
      else if p = of_int \<lfloor>p\<rfloor> then Fin (x powi \<lfloor>p\<rfloor>)
      else NaN)"

text \<open>\<open>x < c\<close> for a finite constant \<open>c\<close>: a comparison with \<open>nan\<close> is false.\<close>

fun np_lt :: "npfloat \<Rightarrow> real \<Rightarrow> bool" where
  "np_lt (Fin a) c = (a < c)"
| "np_lt NInf c = True"
| "np_lt PInf c = False"
| "np_lt NaN c = False"

fun np_add :: "npfloat \<Rightarrow> npfloat \<Rightarrow> npfloat" where
  "np_add (Fin a) (Fin b) = Fin (a + b)"
| "np_add NaN y = NaN"
| "np_add x NaN = NaN"
| "np_add PInf NInf = NaN"
| "np_add NInf PInf = NaN"
| "np_add PInf y = PInf"
| "np_add x PInf = PInf"
| "np_add NInf y = NInf"
| "np_add x NInf = NInf"

fun np_mul :: "npfloat \<Rightarrow> npfloat \<Rightarrow> npfloat" where
  "np_mul (Fin a) (Fin b) = Fin (a * b)"
| "np_mul NaN y = NaN"
| "np_mul x NaN = NaN"
| "np_mul PInf (Fin b) = (if 0 < b then PInf else if b < 0 then NInf else NaN)"
| "np_mul NInf (Fin b) = (if 0 < b then NInf else if b < 0 then PInf else NaN)"
| "np_mul (Fin a) PInf = (if 0 < a then PInf else if a < 0 then NInf else NaN)"
| "np_mul (Fin a) NInf = (if 0 < a then NInf else if a < 0 then PInf else NaN)"
| "np_mul PInf PInf = PInf"
| "np_mul NInf NInf = PInf"
| "np_mul PInf NInf = NInf"
| "np_mul NInf PInf = NInf"

fun np_div :: "npfloat \<Rightarrow> npfloat \<Rightarrow> npfloat" where
  "np_div (Fin a) (Fin b) =
     (if b \<noteq> 0 then Fin (a / b) else if a = 0 then NaN else if 0 < a then PInf else NInf)"
| "np_div NaN y = NaN"
| "np_div x NaN = NaN"
| "np_div (Fin a) PInf = Fin 0"
| "np_div (Fin a) NInf = Fin 0"
| "np_div PInf (Fin b) = (if 0 \<le> b then PInf else NInf)"
| "np_div NInf (Fin b) = (if 0 \<le> b then NInf else PInf)"
| "np_div PInf PInf = NaN"
| "np_div PInf NInf = NaN"
| "np_div NInf PInf = NaN"
| "np_div NInf NInf = NaN"

text \<open>
  A complex entry is its real and imaginary part. A float times a complex number: the
  float is promoted to a complex number with imaginary part 0 and the two are
  multiplied, so each part of the complex number is scaled by the float.
\<close>

type_synonym npcomplex = "npfloat \<times> npfloat"

definition np_mul_complex :: "npfloat \<Rightarrow> complex \<Rightarrow> npcomplex" where
  "np_mul_complex x z = (np_mul x (Fin (Re z)), np_mul x (Fin (Im z)))"

definition np_add_complex :: "npcomplex \<Rightarrow> npcomplex \<Rightarrow> npcomplex" where
  "np_add_complex x y = (np_add (fst x) (fst y), np_add (snd x) (snd y))"

text \<open>Elementwise operations on arrays of one shape.\<close>

definition map_array :: "('a \<Rightarrow> 'b) \<Rightarrow> 'a ndarray \<Rightarrow> 'b ndarray" where
  "map_array f A = NDArray (shape0 A) (shape1 A) (\<lambda>i j. f (elem A i j))"

definition map2_array :: "('a \<Rightarrow> 'b \<Rightarrow> 'c) \<Rightarrow> 'a ndarray \<Rightarrow> 'b ndarray \<Rightarrow> 'c ndarray" where
  "map2_array f A B = NDArray (shape0 A) (shape1 A) (\<lambda>i j. f (elem A i j) (elem B i j))"

section \<open>hpss\<close>

text \<open>
  Modelled from the spec: \<open>core.magphase\<close> is not among the sources. The spec says that a
  complex \<open>S\<close> is decomposed into its magnitude and a phase of unit modulus, and that the
  magnitude times the phase is \<open>S\<close>; where \<open>S\<close> is 0 the phase is 1.
\<close>

definition magphase :: "complex ndarray \<Rightarrow> real ndarray \<times> complex ndarray" where
  "magphase D =
     (map_array cmod D, map_array (\<lambda>z. if z = 0 then 1 else z / of_real (cmod z)) D)"

text \<open>
  A Python number given as a window size, and the \<open>kernel_size\<close> argument: a scalar
  (\<open>np.isscalar\<close>) or a sequence that is indexed at 0 and 1.
\<close>

datatype pyval = PyInt int | PyFloat real

datatype kernel_size = Scalar pyval | Sequence "pyval list"

text \<open>
  \<open>scipy.ndimage.median_filter(A, size=(h, w), mode='reflect')\<close>. scipy builds the
  footprint \<open>numpy.ones((h, w))\<close>: a size that is not an integer raises TypeError, a
  negative size ValueError, and a size 0 leaves no footprint (RuntimeError). The window
  at a position holds the \<open>h * w\<close> entries at offsets \<open>- (h div 2) .. h - 1 - h div 2\<close> and
  \<open>- (w div 2) .. w - 1 - w div 2\<close>, indices outside the array being reflected at its
  edges \<open>(d c b a | a b c d | d c b a)\<close>; the result is the entry of rank
  \<open>(h * w) div 2\<close> of the sorted window.
\<close>

definition filter_size :: "pyval \<Rightarrow> error + nat" where
  "filter_size v =
     (case v of
        PyFloat x \<Rightarrow> Inl TypeError
      | PyInt n \<Rightarrow>
          if n < 0 then Inl ValueError else if n = 0 then Inl RuntimeError else Inr (nat n))"

definition reflect :: "int \<Rightarrow> nat \<Rightarrow> nat" where
  "reflect x n =
     (let m = x mod (2 * int n) in if m < int n then nat m else nat (2 * int n - 1 - m))"

definition median :: "real list \<Rightarrow> real" where
  "median xs = sort xs ! (length xs div 2)"

definition window :: "real ndarray \<Rightarrow> nat \<Rightarrow> nat \<Rightarrow> nat \<Rightarrow> nat \<Rightarrow> real list" where
  "window A h w i j =
     concat (map (\<lambda>k. map (\<lambda>l. elem A (reflect (int i - int (h div 2) + int k) (shape0 A))
                                     (reflect (int j - int (w div 2) + int l) (shape1 A)))
                        [0..<w])
               [0..<h])"

definition median_filter :: "real ndarray \<Rightarrow> pyval \<times> pyval \<Rightarrow> error + real ndarray" where
  "median_filter A sz =
     (case filter_size (fst sz) of
        Inl e \<Rightarrow> Inl e
      | Inr h \<Rightarrow>
          (case filter_size (snd sz) of
             Inl e \<Rightarrow> Inl e
           | Inr w \<Rightarrow> Inr (NDArray (shape0 A) (shape1 A) (\<lambda>i j. median (window A h w i j)))))"

text \<open>The input spectrogram, real or complex, and an output of hpss.\<close>

datatype spectrogram = RealS "real ndarray" | ComplexS "complex ndarray"

datatype hpss_out = RealOut "npfloat ndarray" | ComplexOut "npcomplex ndarray"

text \<open>Lines 298-303: the two window sizes.\<close>

definition kernel_windows :: "kernel_size \<Rightarrow> error + pyval \<times> pyval" where
  "kernel_windows kernel_size =
     (case kernel_size of
        Scalar k \<Rightarrow> Inr (k, k)
      | Sequence ks \<Rightarrow>
          (case ks of
             [] \<Rightarrow> Inl IndexError
           | [a] \<Rightarrow> Inl IndexError
           | a # b # rest \<Rightarrow> Inr (a, b)))"

text \<open>
  Lines 293-310: the magnitude, the phase (none for a real \<open>S\<close>, where the code uses the
  number 1) and the two median-filter responses.
\<close>

definition hpss_responses ::
  "spectrogram \<Rightarrow> kernel_size
     \<Rightarrow> error + real ndarray \<times> complex ndarray option \<times> real ndarray \<times> real ndarray" where
  "hpss_responses S kernel_size =
     (let (mag, phase) =
            (case S of
               RealS A \<Rightarrow> (A, None)
             | ComplexS D \<Rightarrow> (fst (magphase D), Some (snd (magphase D))))
      in
        case kernel_windows kernel_size of
          Inl e \<Rightarrow> Inl e
        | Inr (win_harm, win_perc) \<Rightarrow>
            (case median_filter mag (PyInt 1, win_harm) of
               Inl e \<Rightarrow> Inl e
             | Inr harm \<Rightarrow>
                 (case median_filter mag (win_perc, PyInt 1) of
                    Inl e \<Rightarrow> Inl e
                  | Inr perc \<Rightarrow> Inr (mag, phase, harm, perc))))"

text \<open>Lines 313-314: the binary masks.\<close>

definition hard_masks :: "real ndarray \<Rightarrow> real ndarray \<Rightarrow> npfloat ndarray \<times> npfloat ndarray" where
  "hard_masks harm perc =
     (let mask_harm = map2_array (\<lambda>h p. if p < h then (1::real) else 0) harm perc;
          mask_perc = map_array (\<lambda>m. 1 - m) mask_harm
      in (map_array Fin mask_harm, map_array Fin mask_perc))"

text \<open>Lines 318-332: the soft masks.\<close>

definition soft_masks ::
  "real \<Rightarrow> real ndarray \<Rightarrow> real ndarray \<Rightarrow> real \<Rightarrow> npfloat ndarray \<times> npfloat ndarray" where
  "soft_masks small_float harm perc power' =
     (let perc1 = map_array (\<lambda>x. np_power x power') perc;
          zero_perc = map_array (\<lambda>x. np_lt x small_float) perc1;
          perc2 = map2_array (\<lambda>x z. if z then Fin 0 else x) perc1 zero_perc;
          harm1 = map_array (\<lambda>x. np_power x power') harm;
          zero_harm = map_array (\<lambda>x. np_lt x small_float) harm1;
          harm2 = map2_array (\<lambda>x z. if z then Fin 0 else x) harm1 zero_harm;
          both = map2_array (\<lambda>a b. a \<and> b) zero_harm zero_perc;
          harm3 = map2_array (\<lambda>x z. if z then Fin (1 / 2) else x) harm2 both;
          perc3 = map2_array (\<lambda>x z. if z then Fin (1 / 2) else x) perc2 both;
          mask_harm = map2_array np_div harm3 (map2_array np_add harm3 perc3);
          mask_perc = map2_array np_div perc3 (map2_array np_add harm3 perc3)
      in (mask_harm, mask_perc))"

text \<open>Lines 312-332: the masks computed inside hpss.\<close>

definition hpss_masks ::
  "real \<Rightarrow> real ndarray \<Rightarrow> real ndarray \<Rightarrow> real \<Rightarrow> bool \<Rightarrow> npfloat ndarray \<times> npfloat ndarray" where
  "hpss_masks small_float harm perc power' mask' =
     (if mask' \<or> power' < small_float then hard_masks harm perc
      else soft_masks small_float harm perc power')"

text \<open>Line 334: \<open>(S * mask) * phase\<close>, where \<open>S\<close> is the magnitude.\<close>

definition masked :: "real ndarray \<Rightarrow> npfloat ndarray \<Rightarrow> complex ndarray option \<Rightarrow> hpss_out" where
  "masked mag m phase =
     (let sm = map2_array (\<lambda>s x. np_mul (Fin s) x) mag m in
      case phase of
        None \<Rightarrow> RealOut (map_array (\<lambda>x. np_mul x (Fin 1)) sm)
      | Some ph \<Rightarrow> ComplexOut (map2_array np_mul_complex sm ph))"

text \<open>
  \<open>hpss(S, kernel_size, power, mask)\<close>. \<open>small_float\<close> stands for \<open>util.SMALL_FLOAT\<close>,
  a constant defined outside the sources; it is a parameter of the model. The arguments
  \<open>power\<close> and \<open>mask\<close> are written with a prime.
\<close>

definition hpss ::
  "real \<Rightarrow> spectrogram \<Rightarrow> kernel_size \<Rightarrow> real \<Rightarrow> bool \<Rightarrow> error + hpss_out \<times> hpss_out" where
  "hpss small_float S kernel_size power' mask' =
     (case hpss_responses S kernel_size of
        Inl e \<Rightarrow> Inl e
      | Inr (mag, phase, harm, perc) \<Rightarrow>
          (let (mask_harm, mask_perc) = hpss_masks small_float harm perc power' mask' in
           if mask' then Inr (RealOut mask_harm, RealOut mask_perc)
           else Inr (masked mag mask_harm phase, masked mag mask_perc phase)))"

text \<open>
  What the properties below compare: the elementwise sum of two outputs (\<open>harmonic + percussive\<close>),
  the input as an output array, and elementwise equality.
\<close>

definition out_add :: "hpss_out \<Rightarrow> hpss_out \<Rightarrow> hpss_out" where
  "out_add H P =
     (case (H, P) of
        (RealOut a, RealOut b) \<Rightarrow> RealOut (map2_array np_add a b)
      | (ComplexOut a, ComplexOut b) \<Rightarrow> ComplexOut (map2_array np_add_complex a b)
      | (RealOut a, ComplexOut b) \<Rightarrow>
          ComplexOut (map2_array (\<lambda>x y. np_add_complex (x, Fin 0) y) a b)
      | (ComplexOut a, RealOut b) \<Rightarrow>
          ComplexOut (map2_array (\<lambda>x y. np_add_complex x (y, Fin 0)) a b))"

definition embed :: "spectrogram \<Rightarrow> hpss_out" where
  "embed S =
     (case S of
        RealS A \<Rightarrow> RealOut (map_array Fin A)
      | ComplexS D \<Rightarrow> ComplexOut (map_array (\<lambda>z. (Fin (Re z), Fin (Im z))) D))"

definition out_equal :: "hpss_out \<Rightarrow> hpss_out \<Rightarrow> bool" where
  "out_equal X Y =
     (case (X, Y) of
        (RealOut a, RealOut b) \<Rightarrow> array_equal a b
      | (ComplexOut a, ComplexOut b) \<Rightarrow> array_equal a b
      | (RealOut a, ComplexOut b) \<Rightarrow> False
      | (ComplexOut a, RealOut b) \<Rightarrow> False)"

text \<open>A real spectrogram without negative entries, as a magnitude spectrogram is.\<close>

definition nonnegative :: "real ndarray \<Rightarrow> bool" where
  "nonnegative A = list_all (\<lambda>row. list_all (\<lambda>x. 0 \<le> x) row) (to_rows A)"

text \<open>
  A well-formed \<open>kernel_size\<close>: a positive integer, or a sequence whose first two
  elements are positive integers.
\<close>

definition positive_int :: "pyval \<Rightarrow> bool" where
  "positive_int v = (case v of PyInt n \<Rightarrow> 0 < n | PyFloat x \<Rightarrow> False)"

definition well_formed :: "kernel_size \<Rightarrow> bool" where
  "well_formed kernel_size =
     (case kernel_windows kernel_size of
        Inl e \<Rightarrow> False
      | Inr (a, b) \<Rightarrow> positive_int a \<and> positive_int b)"

text \<open>A magnitude spectrogram: a real one without negative entries, or a complex one.\<close>

definition magnitude_like :: "spectrogram \<Rightarrow> bool" where
  "magnitude_like S = (case S of RealS A \<Rightarrow> nonnegative A | ComplexS D \<Rightarrow> True)"

text \<open>The rows of a real output (none for a complex one), for display.\<close>

definition real_rows :: "hpss_out \<Rightarrow> npfloat list list" where
  "real_rows X = (case X of RealOut a \<Rightarrow> to_rows a | ComplexOut a \<Rightarrow> [])"

section \<open>decompose\<close>

text \<open>\<open>A.T\<close>, and \<open>np.dot\<close> of two 2-D arrays (ValueError when the shapes do not agree).\<close>

definition transpose_array :: "'a ndarray \<Rightarrow> 'a ndarray" where
  "transpose_array A = NDArray (shape1 A) (shape0 A) (\<lambda>i j. elem A j i)"

definition dot :: "real ndarray \<Rightarrow> real ndarray \<Rightarrow> error + real ndarray" where
  "dot A B =
     (if shape1 A \<noteq> shape0 B then Inl ValueError
      else Inr (NDArray (shape0 A) (shape1 B)
                  (\<lambda>i j. sum_list (map (\<lambda>k. elem A i k * elem B k j) [0..<shape1 A]))))"

text \<open>
  The factorizer is scikit-learn's, an external collaborator: the model takes its
  interface as a parameter. \<open>NMF\<close> is the constructor
  \<open>sklearn.decomposition.NMF(n_components=..., **kwargs)\<close>; \<open>fit_transform\<close> and
  \<open>transform\<close> are the methods of a transformer object, which may change the object and
  so return its new state; \<open>components_attr\<close> reads the attribute \<open>components_\<close>.
\<close>

record ('st, 'kw) sklearn =
  NMF :: "int option \<Rightarrow> 'kw \<Rightarrow> 'st"
  fit_transform :: "'st \<Rightarrow> real ndarray \<Rightarrow> error + 'st \<times> real ndarray"
  transform :: "'st \<Rightarrow> real ndarray \<Rightarrow> error + 'st \<times> real ndarray"
  components_attr :: "'st \<Rightarrow> error + real ndarray"

text \<open>
  Modelled from the spec: \<open>util.axis_sort\<close> is not among the sources. The spec says that
  the components (the columns) are reordered by ascending index of their peak magnitude
  along the feature axis, and that the same permutation is applied to the rows of the
  activations; \<open>axis_sort(components, index=True)\<close> returns the reordered copy and the
  permutation. Columns with the same peak index keep their order.
\<close>

definition peak_index :: "real ndarray \<Rightarrow> nat \<Rightarrow> nat" where
  "peak_index C c =
     (if shape0 C = 0 then 0 else arg_min_list (\<lambda>r. - \<bar>elem C r c\<bar>) [0..<shape0 C])"

definition axis_sort :: "real ndarray \<Rightarrow> real ndarray \<times> nat list" where
  "axis_sort C =
     (let idx = sort_key (peak_index C) [0..<shape1 C] in
      (NDArray (shape0 C) (shape1 C) (\<lambda>i j. elem C i (idx ! j)), idx))"

text \<open>\<open>activations[idx]\<close>: the rows at the given indices; IndexError outside the array.\<close>

definition index_rows :: "real ndarray \<Rightarrow> nat list \<Rightarrow> error + real ndarray" where
  "index_rows A idx =
     (if list_ex (\<lambda>t. shape0 A \<le> t) idx then Inl IndexError
      else Inr (NDArray (length idx) (shape1 A) (\<lambda>i j. elem A (idx ! i) j)))"

text \<open>
  \<open>decompose(S, n_components, transformer, sort, fit, **kwargs)\<close>. The result carries the
  final state of the transformer object next to the two returned arrays, so that what the
  call does to the object is visible. The assignment to \<open>n_components\<close> in lines 172-173
  comes after the constructor call and is read by nothing: the constructor receives the
  argument as it was passed.
\<close>

definition decompose ::
  "('st, 'kw) sklearn \<Rightarrow> real ndarray \<Rightarrow> int option \<Rightarrow> 'st option \<Rightarrow> bool \<Rightarrow> bool \<Rightarrow> 'kw
     \<Rightarrow> error + real ndarray \<times> real ndarray \<times> 'st" where
  "decompose sk S n_components transformer sort' fit kwargs =
     (case (case transformer of
              None \<Rightarrow> if \<not> fit then Inl ParameterError else Inr (NMF sk n_components kwargs)
            | Some t \<Rightarrow> Inr t) of
        Inl e \<Rightarrow> Inl e
      | Inr transformer1 \<Rightarrow>
          (let n_components1 =
                 (case n_components of None \<Rightarrow> int (shape0 S) | Some n \<Rightarrow> n)
           in
             case (if fit then fit_transform sk transformer1 (transpose_array S)
                   else transform sk transformer1 (transpose_array S)) of
               Inl e \<Rightarrow> Inl e
             | Inr (transformer2, Y) \<Rightarrow>
                 (let activations = transpose_array Y in
                  case components_attr sk transformer2 of
                    Inl e \<Rightarrow> Inl e
                  | Inr Cs \<Rightarrow>
                      (let components = transpose_array Cs in
                       if sort' then
                         (let (components1, idx) = axis_sort components in
                          case index_rows activations idx of
                            Inl e \<Rightarrow> Inl e
                          | Inr activations1 \<Rightarrow> Inr (components1, activations1, transformer2))
                       else Inr (components, activations, transformer2)))))"

text \<open>
  What scikit-learn documents for \<open>NMF(n_components=None)\<close>: all features are kept.
  Fitted to a matrix with \<open>n\<close> columns (features), such a factorizer has \<open>n\<close> components:
  \<open>components_\<close> has \<open>n\<close> rows and the transformed data has \<open>n\<close> columns.
\<close>

definition keeps_all_features :: "('st, 'kw) sklearn \<Rightarrow> bool" where
  "keeps_all_features sk \<longleftrightarrow>
     (\<forall>kwargs X st Y.
        fit_transform sk (NMF sk None kwargs) X = Inr (st, Y) \<longrightarrow>
          shape1 Y = shape1 X
          \<and> (\<exists>Cs. components_attr sk st = Inr Cs \<and> shape0 Cs = shape1 X))"

text \<open>
  A small factorizer to run decompose on: its state records the \<open>n_components\<close> it was
  constructed with and the basis it was fit to. Given \<open>None\<close> it keeps all features, as
  scikit-learn's NMF documents; the basis it fits is the matrix of ones.
\<close>

definition toy_sklearn :: "(int option \<times> real ndarray option, unit) sklearn" where
  "toy_sklearn =
     \<lparr> NMF = (\<lambda>n kwargs. (n, None)),
       fit_transform = (\<lambda>st X.
         let k = (case fst st of None \<Rightarrow> shape1 X | Some n \<Rightarrow> nat n) in
         Inr ((fst st, Some (NDArray k (shape1 X) (\<lambda>i j. 1))), NDArray (shape0 X) k (\<lambda>i j. 1))),
       transform = (\<lambda>st X.
         case snd st of
           None \<Rightarrow> Inl AttributeError
         | Some C \<Rightarrow> Inr (st, NDArray (shape0 X) (shape0 C) (\<lambda>i j. 1))),
       components_attr = (\<lambda>st. case snd st of None \<Rightarrow> Inl AttributeError | Some C \<Rightarrow> Inr C) \<rparr>"

text \<open>A factorizer that returns a given basis and given coefficients, to run decompose on.\<close>

definition fixed_sklearn :: "real ndarray \<Rightarrow> real ndarray \<Rightarrow> (unit, unit) sklearn" where
  "fixed_sklearn Cs Y =
     \<lparr> NMF = (\<lambda>n kwargs. ()),
       fit_transform = (\<lambda>st X. Inr ((), Y)),
       transform = (\<lambda>st X. Inr ((), Y)),
       components_attr = (\<lambda>st. Inr Cs) \<rparr>"

section \<open>The arrays as objects in memory\<close>

text \<open>
  The functions above compute with array values. To say which arrays a call writes to,
  the arrays that the code assigns in place or returns are placed in a store: a map from
  addresses to array objects, with the next unused address. A Python variable holds an
  address; an in-place assignment (\<open>a[...] = v\<close>) overwrites the object at the address the
  variable holds, and an expression that builds a new array allocates a new object.
  Arrays that are only read (the values of subexpressions) stay values.
\<close>

type_synonym addr = nat

datatype obj =
    RealArr dtype "real ndarray"
  | ComplexArr "complex ndarray"
  | SparseArr "real ndarray"
  | FloatArr "npfloat ndarray"
  | NpComplexArr "npcomplex ndarray"

record store =
  objs :: "addr \<Rightarrow> obj option"
  fresh :: addr

definition alloc :: "obj \<Rightarrow> store \<Rightarrow> addr \<times> store" where
  "alloc v s = (fresh s, s\<lparr>objs := (objs s)(fresh s \<mapsto> v), fresh := Suc (fresh s)\<rparr>)"

definition put :: "addr \<Rightarrow> obj \<Rightarrow> store \<Rightarrow> store" where
  "put a v s = s\<lparr>objs := (objs s)(a \<mapsto> v)\<rparr>"

definition real_at :: "store \<Rightarrow> addr \<Rightarrow> real ndarray" where
  "real_at s a = (case objs s a of Some (RealArr dt A) \<Rightarrow> A | _ \<Rightarrow> NDArray 0 0 (\<lambda>i j. 0))"

definition dtype_at :: "store \<Rightarrow> addr \<Rightarrow> dtype" where
  "dtype_at s a = (case objs s a of Some (RealArr dt A) \<Rightarrow> dt | _ \<Rightarrow> Float64)"

definition float_at :: "store \<Rightarrow> addr \<Rightarrow> npfloat ndarray" where
  "float_at s a = (case objs s a of Some (FloatArr A) \<Rightarrow> A | _ \<Rightarrow> NDArray 0 0 (\<lambda>i j. NaN))"

definition obj_of_out :: "hpss_out \<Rightarrow> obj" where
  "obj_of_out X = (case X of RealOut a \<Rightarrow> FloatArr a | ComplexOut a \<Rightarrow> NpComplexArr a)"

subsection \<open>hpss on the store\<close>

text \<open>Line 334: the two returned arrays are new objects.\<close>

definition hpss_return ::
  "real ndarray \<Rightarrow> complex ndarray option \<Rightarrow> addr \<Rightarrow> addr \<Rightarrow> store
     \<Rightarrow> (error + addr \<times> addr) \<times> store" where
  "hpss_return S phase mask_harm mask_perc s =
     (let (harmonic, s1) = alloc (obj_of_out (masked S (float_at s mask_harm) phase)) s;
          (percussive, s2) = alloc (obj_of_out (masked S (float_at s1 mask_perc) phase)) s1
      in (Inr (harmonic, percussive), s2))"

text \<open>
  Lines 318-332. \<open>perc ** power\<close> and \<open>harm ** power\<close> are new arrays, to which the
  variables are rebound; the three assignments that follow each write into them.
\<close>

definition hpss_soft ::
  "real \<Rightarrow> addr \<Rightarrow> addr \<Rightarrow> real \<Rightarrow> store \<Rightarrow> (addr \<times> addr) \<times> store" where
  "hpss_soft small_float harm perc power' s0 =
     (let (perc2, s1) = alloc (FloatArr (map_array (\<lambda>x. np_power x power') (real_at s0 perc))) s0;
          zero_perc = map_array (\<lambda>x. np_lt x small_float) (float_at s1 perc2);
          s2 = put perc2
                 (FloatArr (map2_array (\<lambda>x z. if z then Fin 0 else x) (float_at s1 perc2) zero_perc))
                 s1;
          (harm2, s3) = alloc (FloatArr (map_array (\<lambda>x. np_power x power') (real_at s2 harm))) s2;
          zero_harm = map_array (\<lambda>x. np_lt x small_float) (float_at s3 harm2);
          s4 = put harm2
                 (FloatArr (map2_array (\<lambda>x z. if z then Fin 0 else x) (float_at s3 harm2) zero_harm))
                 s3;
          both = map2_array (\<lambda>a b. a \<and> b) zero_harm zero_perc;
          s5 = put harm2
                 (FloatArr (map2_array (\<lambda>x z. if z then Fin (1 / 2) else x) (float_at s4 harm2) both))
                 s4;
          s6 = put perc2
                 (FloatArr (map2_array (\<lambda>x z. if z then Fin (1 / 2) else x) (float_at s5 perc2) both))
                 s5;
          (mask_harm, s7) =
             alloc (FloatArr (map2_array np_div (float_at s6 harm2)
                                (map2_array np_add (float_at s6 harm2) (float_at s6 perc2)))) s6;
          (mask_perc, s8) =
             alloc (FloatArr (map2_array np_div (float_at s7 perc2)
                                (map2_array np_add (float_at s7 harm2) (float_at s7 perc2)))) s7
      in ((mask_harm, mask_perc), s8))"

text \<open>Lines 313-314: the binary masks are new arrays.\<close>

definition hpss_hard :: "addr \<Rightarrow> addr \<Rightarrow> store \<Rightarrow> (addr \<times> addr) \<times> store" where
  "hpss_hard harm perc s0 =
     (let (mask_harm, s1) = alloc (FloatArr (fst (hard_masks (real_at s0 harm) (real_at s0 perc)))) s0;
          (mask_perc, s2) = alloc (FloatArr (snd (hard_masks (real_at s1 harm) (real_at s1 perc)))) s1
      in ((mask_harm, mask_perc), s2))"

text \<open>
  \<open>hpss\<close> with its argument \<open>S\<close> given as an address. Lines 293-296 read \<open>S\<close>; for a
  complex \<open>S\<close> the variable is rebound to the magnitude, a new array that is only read.
  Lines 306-310 allocate \<open>harm\<close> and \<open>perc\<close> (\<open>np.empty_like\<close>) and fill them in place.
\<close>

definition hpss_store ::
  "real \<Rightarrow> addr \<Rightarrow> kernel_size \<Rightarrow> real \<Rightarrow> bool \<Rightarrow> store \<Rightarrow> (error + addr \<times> addr) \<times> store" where
  "hpss_store small_float aS kernel_size power' mask' s0 =
     (case (case objs s0 aS of
              Some (RealArr dt A) \<Rightarrow> Inr (A, None)
            | Some (ComplexArr D) \<Rightarrow> Inr (fst (magphase D), Some (snd (magphase D)))
            | _ \<Rightarrow> Inl TypeError) of
        Inl e \<Rightarrow> (Inl e, s0)
      | Inr (S, phase) \<Rightarrow>
          (case kernel_windows kernel_size of
             Inl e \<Rightarrow> (Inl e, s0)
           | Inr (win_harm, win_perc) \<Rightarrow>
               (let (harm, s1) = alloc (RealArr Float64 (NDArray (shape0 S) (shape1 S) (\<lambda>i j. 0))) s0 in
                case median_filter S (PyInt 1, win_harm) of
                  Inl e \<Rightarrow> (Inl e, s1)
                | Inr F \<Rightarrow>
                    (let s2 = put harm (RealArr Float64 F) s1;
                         (perc, s3) =
                            alloc (RealArr Float64 (NDArray (shape0 S) (shape1 S) (\<lambda>i j. 0))) s2
                     in
                       case median_filter S (win_perc, PyInt 1) of
                         Inl e \<Rightarrow> (Inl e, s3)
                       | Inr G \<Rightarrow>
                           (let s4 = put perc (RealArr Float64 G) s3 in
                            if mask' \<or> power' < small_float then
                              (let ((mask_harm, mask_perc), s5) = hpss_hard harm perc s4 in
                               if mask' then (Inr (mask_harm, mask_perc), s5)
                               else hpss_return S phase mask_harm mask_perc s5)
                            else
                              (let ((mask_harm, mask_perc), s5) =
                                     hpss_soft small_float harm perc power' s4
                               in hpss_return S phase mask_harm mask_perc s5))))))"

subsection \<open>nn_filter on the store\<close>

text \<open>The graph an address holds: a sparse matrix, or a dense array.\<close>

definition graph_at :: "store \<Rightarrow> addr \<Rightarrow> real ndarray" where
  "graph_at s a =
     (case objs s a of
        Some (SparseArr R) \<Rightarrow> R
      | Some (RealArr dt R) \<Rightarrow> R
      | _ \<Rightarrow> NDArray 0 0 (\<lambda>i j. 0))"

text \<open>
  Lines 469-483: every iteration reads \<open>S\<close> and \<open>rec\<close> at their addresses and assigns a
  slice of the object that \<open>s_out\<close> holds.
\<close>

fun nn_loop_store ::
  "addr \<Rightarrow> addr \<Rightarrow> aggregate \<Rightarrow> nat \<Rightarrow> nat list \<Rightarrow> addr \<Rightarrow> store \<Rightarrow> (error + unit) \<times> store" where
  "nn_loop_store aS rec aggregate ax [] s_out s = (Inr (), s)"
| "nn_loop_store aS rec aggregate ax (i # rest) s_out s =
     (case nn_iter (dtype_at s s_out) (real_at s aS) (graph_at s rec) aggregate ax i
             (real_at s s_out) of
        Inl e \<Rightarrow> (Inl e, s)
      | Inr v \<Rightarrow>
          nn_loop_store aS rec aggregate ax rest s_out
            (put s_out (RealArr (dtype_at s s_out) v) s))"

text \<open>
  \<open>nn_filter\<close> with \<open>S\<close> and \<open>rec\<close> given as addresses. Lines 453-458: a missing graph is
  built, and a dense one is converted to a sparse matrix, both new objects; a sparse one
  is used as it is. Line 465: \<open>s_out = S.copy()\<close> is a new object of the dtype of \<open>S\<close>.
\<close>

definition nn_filter_store ::
  "(real ndarray \<Rightarrow> int \<Rightarrow> error + real ndarray) \<Rightarrow> addr \<Rightarrow> addr option \<Rightarrow> aggregate option
     \<Rightarrow> int \<Rightarrow> store \<Rightarrow> (error + addr) \<times> store" where
  "nn_filter_store recurrence_matrix aS rec aggregate axis s0 =
     (let aggregate1 = resolve_aggregate aggregate in
      case (case rec of
              None \<Rightarrow>
                (case recurrence_matrix (real_at s0 aS) axis of
                   Inl e \<Rightarrow> (Inl e, s0)
                 | Inr R \<Rightarrow> (case alloc (SparseArr R) s0 of (a, s1) \<Rightarrow> (Inr a, s1)))
            | Some a \<Rightarrow>
                (case objs s0 a of
                   Some (SparseArr R) \<Rightarrow> (Inr a, s0)
                 | _ \<Rightarrow>
                     (case alloc (SparseArr (graph_at s0 a)) s0 of (a1, s1) \<Rightarrow> (Inr a1, s1)))) of
        (Inl e, s1) \<Rightarrow> (Inl e, s1)
      | (Inr rec1, s1) \<Rightarrow>
          (case norm_axis axis of
             Inl e \<Rightarrow> (Inl e, s1)
           | Inr ax \<Rightarrow>
               if shape0 (graph_at s1 rec1) \<noteq> shape_at (real_at s1 aS) ax
                  \<or> shape0 (graph_at s1 rec1) \<noteq> shape1 (graph_at s1 rec1)
               then (Inl ParameterError, s1)
               else
                 (let (s_out, s2) = alloc (RealArr (dtype_at s1 aS) (real_at s1 aS)) s1 in
                  case nn_loop_store aS rec1 aggregate1 ax [0..<shape0 (graph_at s2 rec1)] s_out s2 of
                    (Inl e, s3) \<Rightarrow> (Inl e, s3)
                  | (Inr u, s3) \<Rightarrow> (Inr s_out, s3))))"

section \<open>Properties of nn_filter\<close>

lemma np_take_not_ParameterError: "np_take S targets ax \<noteq> Inl ParameterError"
  by (simp add: np_take_def)

lemma call_aggregate_not_ParameterError:
  "call_aggregate aggregate rec i targets neighbors ax \<noteq> Inl ParameterError"
  by (simp add: call_aggregate_def np_average_def split: aggregate.splits weights.splits option.splits)

lemma set_slice_not_ParameterError: "set_slice dt A ax i v \<noteq> Inl ParameterError"
  by (simp add: set_slice_def Let_def)

lemma nn_iter_not_ParameterError:
  "nn_iter dt S rec aggregate ax i s_out \<noteq> Inl ParameterError"
  using np_take_not_ParameterError call_aggregate_not_ParameterError
    set_slice_not_ParameterError
  by (auto simp: nn_iter_def Let_def split: sum.splits)

lemma nn_loop_not_ParameterError:
  "nn_loop dt S rec aggregate ax idxs s_out \<noteq> Inl ParameterError"
proof (induction idxs arbitrary: s_out)
  case Nil
  show ?case by simp
next
  case (Cons i rest)
  show ?case
    using Cons.IH nn_iter_not_ParameterError
    by (auto split: sum.splits)
qed

text \<open>
  C5. With a supplied graph \<open>rec\<close> (and an axis that exists), nn_filter ends with
  ParameterError exactly when \<open>rec\<close> is not square or its dimension differs from the
  length of \<open>S\<close> along the axis. The error does not depend on the aggregation function:
  it is raised before the loop starts.
\<close>

theorem nn_filter_ParameterError_iff:
  assumes "norm_axis axis = Inr ax"
  shows "nn_filter recurrence_matrix dt S (Some rec) aggregate axis = Inl ParameterError
         \<longleftrightarrow> (shape0 rec \<noteq> shape1 rec \<or> shape0 rec \<noteq> shape_at S ax)"
  using assms nn_loop_not_ParameterError
  by (auto simp: nn_filter_def Let_def)

theorem nn_filter_ParameterError_iff_witness:
  "nn_filter (\<lambda>S axis. Inl ValueError) Float64 (NDArray 12 10 (\<lambda>i j. 0))
     (Some (NDArray 8 8 (\<lambda>i j. 0))) None (- 1) = Inl ParameterError"
  using nn_filter_ParameterError_iff [of "- 1" 1 "\<lambda>S axis. Inl ValueError" Float64
      "NDArray 12 10 (\<lambda>i j. 0)" "NDArray 8 8 (\<lambda>i j. 0)" None]
  by (simp add: norm_axis_def shape_at_def)

lemma get_slice_entry: "get_slice A ax i = map (\<lambda>k. entry A ax i k) [0..<slice_len A ax]"
  by (simp add: get_slice_def entry_def slice_len_def)

lemma length_broadcast_to:
  "length v = n \<or> length v = 1 \<Longrightarrow> length (broadcast_to n v) = n"
  by (auto simp: broadcast_to_def)

lemma set_slice_Inr:
  assumes "set_slice dt A ax i v = Inr B"
  shows "shape0 B = shape0 A" and "shape1 B = shape1 A"
    and "entry B ax i' k =
           (if i' = i then map (as_dtype dt) (broadcast_to (slice_len A ax) v) ! k
            else entry A ax i' k)"
    and "length v = slice_len A ax \<or> length v = 1"
  using assms by (auto simp: set_slice_def Let_def entry_def split: if_splits)

lemma set_slice_total:
  assumes "i < shape_at A ax" and "length v = slice_len A ax \<or> length v = 1"
  shows "\<exists>B. set_slice dt A ax i v = Inr B"
  using assms by (auto simp: set_slice_def Let_def)

lemma nn_iter_shape:
  assumes "nn_iter dt S rec aggregate ax i s = Inr s'"
  shows "shape0 s' = shape0 s \<and> shape1 s' = shape1 s"
  using assms set_slice_Inr(1,2)
  by (auto simp: nn_iter_def Let_def split: if_splits sum.splits)

lemma nn_iter_other:
  assumes "nn_iter dt S rec aggregate ax i s = Inr s'" and "i' \<noteq> i"
  shows "entry s' ax i' k = entry s ax i' k"
  using assms set_slice_Inr(3)[of dt s ax i _ s' i' k]
  by (auto simp: nn_iter_def Let_def split: if_splits sum.splits)

lemma nn_iter_empty:
  assumes "nn_iter dt S rec aggregate ax i s = Inr s'" and "nonzero_cols rec i = []"
  shows "s' = s"
  using assms by (simp add: nn_iter_def)

lemma nn_iter_written:
  assumes "nn_iter dt S rec aggregate ax i s = Inr s'" and "nonzero_cols rec i \<noteq> []"
  shows "\<exists>neighbors v. np_take S (nonzero_cols rec i) ax = Inr neighbors
           \<and> call_aggregate aggregate rec i (nonzero_cols rec i) neighbors ax = Inr v
           \<and> (length v = slice_len s ax \<or> length v = 1)
           \<and> (\<forall>k. entry s' ax i k = map (as_dtype dt) (broadcast_to (slice_len s ax) v) ! k)"
  using assms set_slice_Inr(3)[of dt s ax i _ s' i] set_slice_Inr(4)[of dt s ax i _ s']
  by (auto simp: nn_iter_def Let_def split: if_splits sum.splits)

lemma nn_loop_shape:
  "nn_loop dt S rec aggregate ax idxs s = Inr out \<Longrightarrow> shape0 out = shape0 s \<and> shape1 out = shape1 s"
proof (induction idxs arbitrary: s)
  case Nil
  then show ?case by simp
next
  case (Cons i rest)
  then obtain s' where a: "nn_iter dt S rec aggregate ax i s = Inr s'"
    and b: "nn_loop dt S rec aggregate ax rest s' = Inr out"
    by (auto split: sum.splits)
  show ?case using Cons.IH[OF b] nn_iter_shape[OF a] by simp
qed

lemma nn_loop_untouched:
  "nn_loop dt S rec aggregate ax idxs s = Inr out \<Longrightarrow> i \<notin> set idxs
     \<Longrightarrow> entry out ax i k = entry s ax i k"
proof (induction idxs arbitrary: s)
  case Nil
  then show ?case by simp
next
  case (Cons j rest)
  then obtain s' where a: "nn_iter dt S rec aggregate ax j s = Inr s'"
    and b: "nn_loop dt S rec aggregate ax rest s' = Inr out"
    by (auto split: sum.splits)
  from Cons.prems have ne: "i \<noteq> j" and nin: "i \<notin> set rest" by auto
  show ?case using Cons.IH[OF b nin] nn_iter_other[OF a ne] by simp
qed

lemma nn_loop_visited:
  assumes "nn_loop dt S rec aggregate ax idxs s = Inr out" and "distinct idxs" and "i \<in> set idxs"
  shows "(nonzero_cols rec i = [] \<longrightarrow> (\<forall>k. entry out ax i k = entry s ax i k))
       \<and> (nonzero_cols rec i \<noteq> [] \<longrightarrow>
            (\<exists>neighbors v. np_take S (nonzero_cols rec i) ax = Inr neighbors
               \<and> call_aggregate aggregate rec i (nonzero_cols rec i) neighbors ax = Inr v
               \<and> (length v = slice_len s ax \<or> length v = 1)
               \<and> (\<forall>k. entry out ax i k
                        = map (as_dtype dt) (broadcast_to (slice_len s ax) v) ! k)))"
  using assms
proof (induction idxs arbitrary: s)
  case Nil
  then show ?case by simp
next
  case (Cons j rest)
  then obtain s' where a: "nn_iter dt S rec aggregate ax j s = Inr s'"
    and b: "nn_loop dt S rec aggregate ax rest s' = Inr out"
    by (auto split: sum.splits)
  have sl: "slice_len s' ax = slice_len s ax"
    using nn_iter_shape[OF a] by (simp add: slice_len_def)
  show ?case
  proof (cases "i = j")
    case True
    with Cons.prems have nin: "i \<notin> set rest" by simp
    have keep: "\<And>k. entry out ax i k = entry s' ax i k"
      using nn_loop_untouched[OF b nin] .
    show ?thesis
    proof (cases "nonzero_cols rec i = []")
      case True
      with a \<open>i = j\<close> have "s' = s" using nn_iter_empty by blast
      with keep True show ?thesis by simp
    next
      case False
      with nn_iter_written[of dt S rec aggregate ax i s s'] a \<open>i = j\<close> keep
      show ?thesis by auto
    qed
  next
    case False
    with Cons.prems have mem: "i \<in> set rest" and d: "distinct rest" by auto
    have o: "\<And>k. entry s' ax i k = entry s ax i k"
      using nn_iter_other[OF a False] .
    show ?thesis using Cons.IH[OF b d mem] o sl by simp
  qed
qed

lemma nn_loop_no_neighbors:
  "\<forall>i\<in>set idxs. nonzero_cols rec i = [] \<Longrightarrow> nn_loop dt S rec aggregate ax idxs s = Inr s"
  by (induction idxs) (auto simp: nn_iter_def)

lemma nonzero_cols_zero_row:
  "\<forall>j<shape1 rec. elem rec i j = 0 \<Longrightarrow> nonzero_cols rec i = []"
  by (simp add: nonzero_cols_def filter_empty_conv)

lemma nonzero_cols_bound: "t \<in> set (nonzero_cols rec i) \<Longrightarrow> t < shape1 rec"
  by (simp add: nonzero_cols_def)

lemma np_take_total:
  assumes "\<forall>t\<in>set targets. t < shape_at S ax"
  shows "\<exists>neighbors. np_take S targets ax = Inr neighbors
           \<and> shape_at neighbors ax = length targets \<and> slice_len neighbors ax = slice_len S ax"
  using assms
  by (auto simp: np_take_def list_ex_iff shape_at_def slice_len_def not_le)

lemma np_take_slices:
  assumes "np_take S targets ax = Inr neighbors" and "r < length targets"
  shows "get_slice neighbors ax r = get_slice S ax (targets ! r)"
  using assms by (auto simp: np_take_def get_slice_def split: if_splits)

text \<open>The result of the aggregation call, spelled out for each kind of \<open>aggregate\<close>.\<close>

lemma call_aggregate_cases:
  "call_aggregate (resolve_aggregate aggregate) rec i targets neighbors ax = Inr v \<longleftrightarrow>
     (case aggregate of
        None \<Rightarrow> np_mean neighbors ax = Some v
      | Some NpAverage \<Rightarrow>
          np_average neighbors ax (squeeze (map (\<lambda>t. elem rec i t) targets)) = Inr v
      | Some (Other g) \<Rightarrow> g neighbors ax = Some v)"
  by (auto simp: call_aggregate_def resolve_aggregate_def
      split: option.splits aggregate.splits)

lemma nn_filter_graph:
  assumes "(case rec of None \<Rightarrow> recurrence_matrix S axis | Some r \<Rightarrow> Inr r) = Inr R"
  shows "nn_filter recurrence_matrix dt S rec aggregate axis =
           (case norm_axis axis of
              Inl e \<Rightarrow> Inl e
            | Inr ax \<Rightarrow>
                if shape0 R \<noteq> shape_at S ax \<or> shape0 R \<noteq> shape1 R then Inl ParameterError
                else nn_loop dt S R (resolve_aggregate aggregate) ax [0..<shape0 R] S)"
  using assms by (simp add: nn_filter_def Let_def)

text \<open>
  C3 (as amended). Let \<open>R\<close> be the graph the loop runs on: the supplied \<open>rec\<close>, or the one
  that \<open>recurrence_matrix\<close> builds when \<open>rec\<close> is \<open>None\<close>. When nn_filter returns \<open>out\<close>,
  \<open>out\<close> has the shape of \<open>S\<close> and, for every index \<open>i\<close> along the filtering axis: if row
  \<open>i\<close> of \<open>R\<close> has no nonzero entry, slice \<open>i\<close> of \<open>out\<close> is slice \<open>i\<close> of \<open>S\<close>; otherwise
  it is the aggregate of the slices gathered from the input \<open>S\<close> itself (not from the
  output in progress) at the nonzero columns of row \<open>i\<close>, converted to the dtype of \<open>S\<close>.
  The aggregate is \<open>np.mean\<close> of the gathered slices by default, \<open>np.average\<close> with the
  squeezed entries of row \<open>i\<close> as weights when \<open>aggregate\<close> is \<open>np.average\<close>, and the given
  function applied to the gathered slices otherwise. In particular, a graph of the right
  shape with no nonzero entry makes nn_filter return \<open>S\<close>.
\<close>

theorem nn_filter_slices:
  assumes "(case rec of None \<Rightarrow> recurrence_matrix S axis | Some r \<Rightarrow> Inr r) = Inr R"
  shows
  "(nn_filter recurrence_matrix dt S rec aggregate axis = Inr out \<longrightarrow>
      shape0 out = shape0 S \<and> shape1 out = shape1 S \<and>
      (\<exists>ax. norm_axis axis = Inr ax \<and>
         (\<forall>i<shape_at S ax.
            (nonzero_cols R i = [] \<longrightarrow> get_slice out ax i = get_slice S ax i) \<and>
            (nonzero_cols R i \<noteq> [] \<longrightarrow>
               (\<exists>neighbors v.
                  np_take S (nonzero_cols R i) ax = Inr neighbors \<and>
                  (\<forall>r<length (nonzero_cols R i).
                     get_slice neighbors ax r = get_slice S ax (nonzero_cols R i ! r)) \<and>
                  (case aggregate of
                     None \<Rightarrow> np_mean neighbors ax = Some v
                   | Some NpAverage \<Rightarrow>
                       np_average neighbors ax
                         (squeeze (map (\<lambda>t. elem R i t) (nonzero_cols R i))) = Inr v
                   | Some (Other g) \<Rightarrow> g neighbors ax = Some v) \<and>
                  get_slice out ax i
                    = map (as_dtype dt) (broadcast_to (slice_len S ax) v))))))
   \<and> (norm_axis axis = Inr ax' \<and> shape0 R = shape1 R \<and> shape0 R = shape_at S ax' \<and>
        (\<forall>i<shape0 R. \<forall>j<shape1 R. elem R i j = 0) \<longrightarrow>
      nn_filter recurrence_matrix dt S rec aggregate axis = Inr S)"
proof (intro conjI impI)
  assume ok: "nn_filter recurrence_matrix dt S rec aggregate axis = Inr out"
  then obtain ax where ax: "norm_axis axis = Inr ax"
    and sq: "shape0 R = shape_at S ax"
    and loop: "nn_loop dt S R (resolve_aggregate aggregate) ax [0..<shape0 R] S = Inr out"
    unfolding nn_filter_graph[where rec = rec and recurrence_matrix = recurrence_matrix
        and S = S and axis = axis and R = R, OF assms]
    by (auto split: sum.splits if_splits)
  from nn_loop_shape[OF loop] show "shape0 out = shape0 S" and "shape1 out = shape1 S"
    by simp_all
  then have sl: "slice_len out ax = slice_len S ax" by (simp add: slice_len_def)
  have "\<forall>i<shape_at S ax.
          (nonzero_cols R i = [] \<longrightarrow> get_slice out ax i = get_slice S ax i) \<and>
          (nonzero_cols R i \<noteq> [] \<longrightarrow>
             (\<exists>neighbors v.
                np_take S (nonzero_cols R i) ax = Inr neighbors \<and>
                (\<forall>r<length (nonzero_cols R i).
                   get_slice neighbors ax r = get_slice S ax (nonzero_cols R i ! r)) \<and>
                (case aggregate of
                   None \<Rightarrow> np_mean neighbors ax = Some v
                 | Some NpAverage \<Rightarrow>
                     np_average neighbors ax
                       (squeeze (map (\<lambda>t. elem R i t) (nonzero_cols R i))) = Inr v
                 | Some (Other g) \<Rightarrow> g neighbors ax = Some v) \<and>
                get_slice out ax i = map (as_dtype dt) (broadcast_to (slice_len S ax) v)))"
  proof (intro allI impI)
    fix i assume "i < shape_at S ax"
    with sq have mem: "i \<in> set [0..<shape0 R]" by simp
    note v = nn_loop_visited[OF loop distinct_upt mem]
    show "(nonzero_cols R i = [] \<longrightarrow> get_slice out ax i = get_slice S ax i) \<and>
          (nonzero_cols R i \<noteq> [] \<longrightarrow>
             (\<exists>neighbors v.
                np_take S (nonzero_cols R i) ax = Inr neighbors \<and>
                (\<forall>r<length (nonzero_cols R i).
                   get_slice neighbors ax r = get_slice S ax (nonzero_cols R i ! r)) \<and>
                (case aggregate of
                   None \<Rightarrow> np_mean neighbors ax = Some v
                 | Some NpAverage \<Rightarrow>
                     np_average neighbors ax
                       (squeeze (map (\<lambda>t. elem R i t) (nonzero_cols R i))) = Inr v
                 | Some (Other g) \<Rightarrow> g neighbors ax = Some v) \<and>
                get_slice out ax i = map (as_dtype dt) (broadcast_to (slice_len S ax) v)))"
    proof (intro conjI impI)
      assume "nonzero_cols R i = []"
      with v show "get_slice out ax i = get_slice S ax i"
        by (simp add: get_slice_entry sl)
    next
      assume "nonzero_cols R i \<noteq> []"
      with v obtain neighbors w where
        t: "np_take S (nonzero_cols R i) ax = Inr neighbors" and
        c: "call_aggregate (resolve_aggregate aggregate) R i (nonzero_cols R i)
              neighbors ax = Inr w" and
        l: "length w = slice_len S ax \<or> length w = 1" and
        e: "\<forall>k. entry out ax i k = map (as_dtype dt) (broadcast_to (slice_len S ax) w) ! k"
        by blast
      have g: "get_slice out ax i = map (as_dtype dt) (broadcast_to (slice_len S ax) w)"
        using e length_broadcast_to[OF l]
        by (intro nth_equalityI) (simp_all add: get_slice_entry sl)
      have n: "\<forall>r<length (nonzero_cols R i).
                 get_slice neighbors ax r = get_slice S ax (nonzero_cols R i ! r)"
        using np_take_slices[OF t] by blast
      from t n c[unfolded call_aggregate_cases] g
      show "\<exists>neighbors v.
                np_take S (nonzero_cols R i) ax = Inr neighbors \<and>
                (\<forall>r<length (nonzero_cols R i).
                   get_slice neighbors ax r = get_slice S ax (nonzero_cols R i ! r)) \<and>
                (case aggregate of
                   None \<Rightarrow> np_mean neighbors ax = Some v
                 | Some NpAverage \<Rightarrow>
                     np_average neighbors ax
                       (squeeze (map (\<lambda>t. elem R i t) (nonzero_cols R i))) = Inr v
                 | Some (Other g) \<Rightarrow> g neighbors ax = Some v) \<and>
                get_slice out ax i = map (as_dtype dt) (broadcast_to (slice_len S ax) v)"
        by blast
    qed
  qed
  with ax show "\<exists>ax. norm_axis axis = Inr ax \<and>
         (\<forall>i<shape_at S ax.
            (nonzero_cols R i = [] \<longrightarrow> get_slice out ax i = get_slice S ax i) \<and>
            (nonzero_cols R i \<noteq> [] \<longrightarrow>
               (\<exists>neighbors v.
                  np_take S (nonzero_cols R i) ax = Inr neighbors \<and>
                  (\<forall>r<length (nonzero_cols R i).
                     get_slice neighbors ax r = get_slice S ax (nonzero_cols R i ! r)) \<and>
                  (case aggregate of
                     None \<Rightarrow> np_mean neighbors ax = Some v
                   | Some NpAverage \<Rightarrow>
                       np_average neighbors ax
                         (squeeze (map (\<lambda>t. elem R i t) (nonzero_cols R i))) = Inr v
                   | Some (Other g) \<Rightarrow> g neighbors ax = Some v) \<and>
                  get_slice out ax i
                    = map (as_dtype dt) (broadcast_to (slice_len S ax) v))))"
    by blast
next
  assume h: "norm_axis axis = Inr ax' \<and> shape0 R = shape1 R \<and> shape0 R = shape_at S ax' \<and>
        (\<forall>i<shape0 R. \<forall>j<shape1 R. elem R i j = 0)"
  then have "\<forall>i\<in>set [0..<shape0 R]. nonzero_cols R i = []"
    using nonzero_cols_zero_row by auto
  from nn_loop_no_neighbors[OF this] h
  show "nn_filter recurrence_matrix dt S rec aggregate axis = Inr S"
    unfolding nn_filter_graph[where rec = rec and recurrence_matrix = recurrence_matrix
        and S = S and axis = axis and R = R, OF assms]
    by simp
qed

text \<open>The unfolding rules that evaluate nn_filter on a concrete input.\<close>

lemmas nn_eval = nn_filter_def of_rows_def to_rows_def norm_axis_def shape_at_def nn_iter_def nonzero_cols_def
     np_take_def resolve_aggregate_def call_aggregate_def np_mean_def set_slice_def broadcast_to_def slice_len_def
     get_slice_def np_average_def squeeze_def as_dtype_def to_int64_def Let_def upt_rec

theorem nn_filter_slices_witness:
  "(\<exists>out. nn_filter (\<lambda>S axis. Inr (of_rows [[0, 1, 1], [0, 0, 0], [1, 0, 0]])) Float64
            (of_rows [[1, 2, 3], [4, 5, 6]]) None None (- 1) = Inr out
        \<and> get_slice out 1 0 = [5 / 2, 11 / 2]
        \<and> get_slice out 1 1 = get_slice (of_rows [[1, 2, 3], [4, 5, 6]]) 1 1
        \<and> get_slice out 1 2 = [1, 4])
   \<and> nn_filter (\<lambda>S axis. Inl ValueError) Int64 (of_rows [[1, 2, 3], [4, 5, 6]])
        (Some (NDArray 3 3 (\<lambda>i j. 0))) None (- 1) = Inr (of_rows [[1, 2, 3], [4, 5, 6]])"
proof -
  let ?S = "of_rows [[1, 2, 3], [4, 5, 6 :: real]]"
  let ?R = "of_rows [[0, 1, 1], [0, 0, 0], [1, 0, 0 :: real]]"
  let ?rm = "\<lambda>(S :: real ndarray) (axis :: int). (Inr ?R :: error + real ndarray)"
  let ?no = "\<lambda>(S :: real ndarray) (axis :: int). (Inl ValueError :: error + real ndarray)"
  obtain out where run: "nn_filter ?rm Float64 ?S None None (- 1) = Inr out"
    by (simp add: nn_eval)
  have g: "(case None of None \<Rightarrow> ?rm ?S (- 1) | Some r \<Rightarrow> Inr r) = Inr ?R" by simp
  have ax: "norm_axis (- 1) = Inr 1" by (simp add: norm_axis_def)
  have nz: "nonzero_cols ?R 0 = [1, 2]" "nonzero_cols ?R 1 = []" "nonzero_cols ?R 2 = [0]"
    by (simp_all add: nn_eval)
  note th = nn_filter_slices[where rec = None and recurrence_matrix = ?rm and S = ?S
      and axis = "- 1" and R = ?R and dt = Float64 and aggregate = None and out = out
      and ax' = 1, OF g]
  from th run ax have sl: "\<forall>i<shape_at ?S 1.
            (nonzero_cols ?R i = [] \<longrightarrow> get_slice out 1 i = get_slice ?S 1 i) \<and>
            (nonzero_cols ?R i \<noteq> [] \<longrightarrow>
               (\<exists>neighbors v.
                  np_take ?S (nonzero_cols ?R i) 1 = Inr neighbors \<and>
                  (\<forall>r<length (nonzero_cols ?R i).
                     get_slice neighbors 1 r = get_slice ?S 1 (nonzero_cols ?R i ! r)) \<and>
                  np_mean neighbors 1 = Some v \<and>
                  get_slice out 1 i = map (as_dtype Float64) (broadcast_to (slice_len ?S 1) v)))"
    by auto
  have i0: "(0::nat) < shape_at ?S 1" and i1: "(1::nat) < shape_at ?S 1"
    and i2: "(2::nat) < shape_at ?S 1"
    by (simp_all add: nn_eval)
  have n3: "shape_at ?S 1 = 3" by (simp add: nn_eval)
  from sl[rule_format, OF i1] nz(2) have s1: "get_slice out 1 1 = get_slice ?S 1 1"
    by simp
  from sl[rule_format, OF i0] nz(1) have s0: "get_slice out 1 0 = [5 / 2, 11 / 2]"
    by (auto simp: nn_eval)
  from sl[rule_format, OF i2] nz(3) have s2: "get_slice out 1 2 = [1, 4]"
    by (auto simp: nn_eval)
  have g0: "(case Some (NDArray 3 3 (\<lambda>i j. 0)) of None \<Rightarrow> ?no ?S (- 1) | Some r \<Rightarrow> Inr r)
              = Inr (NDArray 3 3 (\<lambda>i j. 0))" by simp
  have z: "nn_filter ?no Int64 ?S (Some (NDArray 3 3 (\<lambda>i j. 0))) None (- 1) = Inr ?S"
    using nn_filter_slices[where rec = "Some (NDArray 3 3 (\<lambda>i j. 0))"
        and recurrence_matrix = ?no and S = ?S and axis = "- 1"
        and R = "NDArray 3 3 (\<lambda>i j. 0)" and dt = Int64 and aggregate = None and out = out
        and ax' = 1, OF g0] ax n3
    by simp
  from run s0 s1 s2 z show ?thesis by blast
qed

theorem nn_filter_slices_counterexample:
  "(\<exists>out. nn_filter (\<lambda>S axis. Inl ValueError) Int64 (of_rows [[1, 2, 3], [4, 5, 6]])
            (Some (of_rows [[0, 1, 1], [0, 0, 0], [1, 0, 0]])) None (- 1) = Inr out
        \<and> to_rows out = [[2, 2, 1], [5, 5, 4]])
   \<and> (\<exists>neighbors. np_take (of_rows [[1, 2, 3], [4, 5, 6]]) [1, 2] 1 = Inr neighbors
        \<and> np_mean neighbors 1 = Some [5 / 2, 11 / 2])"
  by (simp add: nn_eval)

lemma np_mean_total:
  assumes "0 < shape_at a ax"
  shows "\<exists>v. np_mean a ax = Some v \<and> length v = slice_len a ax"
  using assms by (auto simp: np_mean_def slice_len_def)

lemma nn_iter_total:
  assumes "i < shape_at s ax"
    and "nonzero_cols rec i \<noteq> [] \<longrightarrow>
           (\<exists>neighbors v. np_take S (nonzero_cols rec i) ax = Inr neighbors
              \<and> call_aggregate aggregate rec i (nonzero_cols rec i) neighbors ax = Inr v
              \<and> (length v = slice_len s ax \<or> length v = 1))"
  shows "\<exists>s'. nn_iter dt S rec aggregate ax i s = Inr s'"
proof (cases "nonzero_cols rec i = []")
  case True
  then show ?thesis by (simp add: nn_iter_def)
next
  case False
  with assms(2) obtain neighbors v where
    t: "np_take S (nonzero_cols rec i) ax = Inr neighbors" and
    c: "call_aggregate aggregate rec i (nonzero_cols rec i) neighbors ax = Inr v" and
    l: "length v = slice_len s ax \<or> length v = 1"
    by blast
  from set_slice_total[OF assms(1) l] obtain B where "set_slice dt s ax i v = Inr B" ..
  with False t c show ?thesis by (simp add: nn_iter_def)
qed

lemma nn_loop_total:
  assumes "shape0 s = shape0 S" and "shape1 s = shape1 S"
    and "\<forall>i\<in>set idxs. i < shape_at S ax \<and>
           (nonzero_cols rec i \<noteq> [] \<longrightarrow>
             (\<exists>neighbors v. np_take S (nonzero_cols rec i) ax = Inr neighbors
                \<and> call_aggregate aggregate rec i (nonzero_cols rec i) neighbors ax = Inr v
                \<and> (length v = slice_len S ax \<or> length v = 1)))"
  shows "\<exists>out. nn_loop dt S rec aggregate ax idxs s = Inr out"
  using assms
proof (induction idxs arbitrary: s)
  case Nil
  then show ?case by simp
next
  case (Cons i rest)
  have sh: "shape_at s ax = shape_at S ax" "slice_len s ax = slice_len S ax"
    using Cons.prems(1,2) by (simp_all add: shape_at_def slice_len_def)
  from Cons.prems(3) sh have "\<exists>s'. nn_iter dt S rec aggregate ax i s = Inr s'"
    by (intro nn_iter_total) auto
  then obtain s' where a: "nn_iter dt S rec aggregate ax i s = Inr s'" ..
  from nn_iter_shape[OF a] Cons.prems(1,2)
  have "shape0 s' = shape0 S" "shape1 s' = shape1 S" by simp_all
  from Cons.IH[OF this] Cons.prems(3) obtain out where
    "nn_loop dt S rec aggregate ax rest s' = Inr out" by auto
  with a show ?case by simp
qed

lemma default_aggregate_total:
  assumes "np_take S targets ax = Inr neighbors" and "targets \<noteq> []"
    and "\<forall>t\<in>set targets. t < shape_at S ax"
  shows "\<exists>v. call_aggregate (resolve_aggregate None) rec i targets neighbors ax = Inr v
           \<and> length v = slice_len S ax"
proof -
  from np_take_total[OF assms(3)] assms(1)
  have sh: "shape_at neighbors ax = length targets" "slice_len neighbors ax = slice_len S ax"
    by auto
  with assms(2) have "0 < shape_at neighbors ax" by simp
  from np_mean_total[OF this] sh show ?thesis
    by (auto simp: call_aggregate_def resolve_aggregate_def)
qed

text \<open>
  \<open>np.average\<close> on the weights of a row without negative entries: the nonzero entries
  are positive, so two or more of them are valid weights, and a single one is squeezed
  to a 0-d array and rejected.
\<close>

lemma nonzero_cols_positive:
  assumes "\<forall>j<shape1 rec. 0 \<le> elem rec i j" and "t \<in> set (nonzero_cols rec i)"
  shows "0 < elem rec i t"
  using assms by (auto simp: nonzero_cols_def order.strict_iff_order)

lemma sum_list_positive:
  fixes ws :: "real list"
  assumes "ws \<noteq> []" and "\<forall>w\<in>set ws. 0 < w"
  shows "0 < sum_list ws"
  using assms by (induction ws) (auto simp: add_pos_nonneg sum_list_nonneg less_imp_le)

lemma average_aggregate:
  assumes "np_take S targets ax = Inr neighbors"
    and "\<forall>t\<in>set targets. t < shape_at S ax"
    and "\<forall>t\<in>set targets. 0 < elem rec i t"
  shows "length targets = 1 \<longrightarrow>
           call_aggregate NpAverage rec i targets neighbors ax = Inl TypeError"
    and "length targets \<noteq> 1 \<longrightarrow> targets \<noteq> [] \<longrightarrow>
           (\<exists>v. call_aggregate NpAverage rec i targets neighbors ax = Inr v
              \<and> length v = slice_len S ax)"
proof -
  show "length targets = 1 \<longrightarrow>
           call_aggregate NpAverage rec i targets neighbors ax = Inl TypeError"
  proof
    assume "length targets = 1"
    then obtain t where "targets = [t]" by (cases targets) auto
    then show "call_aggregate NpAverage rec i targets neighbors ax = Inl TypeError"
      by (simp add: call_aggregate_def squeeze_def np_average_def)
  qed
next
  show "length targets \<noteq> 1 \<longrightarrow> targets \<noteq> [] \<longrightarrow>
           (\<exists>v. call_aggregate NpAverage rec i targets neighbors ax = Inr v
              \<and> length v = slice_len S ax)"
  proof (intro impI)
    assume l: "length targets \<noteq> 1" and ne: "targets \<noteq> []"
    let ?ws = "map (\<lambda>t. elem rec i t) targets"
    from l ne have sq: "squeeze ?ws = W1 ?ws"
      by (cases targets; cases "tl targets") (auto simp: squeeze_def)
    from np_take_total[OF assms(2)] assms(1)
    have sh: "shape_at neighbors ax = length targets" "slice_len neighbors ax = slice_len S ax"
      by auto
    have "0 < sum_list ?ws"
      using ne assms(3) by (intro sum_list_positive) auto
    then have nz: "sum_list ?ws \<noteq> 0" by simp
    from sq sh nz show "\<exists>v. call_aggregate NpAverage rec i targets neighbors ax = Inr v
              \<and> length v = slice_len S ax"
      by (auto simp: call_aggregate_def np_average_def slice_len_def)
  qed
qed

lemma nn_iter_average:
  assumes "i < shape_at s ax" and "slice_len s ax = slice_len S ax"
    and "\<forall>t\<in>set (nonzero_cols rec i). t < shape_at S ax"
    and "\<forall>j<shape1 rec. 0 \<le> elem rec i j"
  shows "length (nonzero_cols rec i) = 1 \<longrightarrow> nn_iter dt S rec NpAverage ax i s = Inl TypeError"
    and "length (nonzero_cols rec i) \<noteq> 1 \<longrightarrow> (\<exists>s'. nn_iter dt S rec NpAverage ax i s = Inr s')"
proof -
  from np_take_total[OF assms(3)] obtain neighbors where
    t: "np_take S (nonzero_cols rec i) ax = Inr neighbors" by blast
  have pos: "\<forall>t\<in>set (nonzero_cols rec i). 0 < elem rec i t"
    using nonzero_cols_positive[OF assms(4)] by blast
  note a = average_aggregate[OF t assms(3) pos]
  show "length (nonzero_cols rec i) = 1 \<longrightarrow> nn_iter dt S rec NpAverage ax i s = Inl TypeError"
  proof
    assume l: "length (nonzero_cols rec i) = 1"
    then have "nonzero_cols rec i \<noteq> []" by auto
    with a(1) l t show "nn_iter dt S rec NpAverage ax i s = Inl TypeError"
      by (simp add: nn_iter_def)
  qed
  show "length (nonzero_cols rec i) \<noteq> 1 \<longrightarrow> (\<exists>s'. nn_iter dt S rec NpAverage ax i s = Inr s')"
  proof
    assume l: "length (nonzero_cols rec i) \<noteq> 1"
    show "\<exists>s'. nn_iter dt S rec NpAverage ax i s = Inr s'"
    proof (rule nn_iter_total[OF assms(1)], intro impI)
      assume ne: "nonzero_cols rec i \<noteq> []"
      with a(2) l obtain v where
        "call_aggregate NpAverage rec i (nonzero_cols rec i) neighbors ax = Inr v"
        "length v = slice_len S ax" by blast
      with t assms(2) show "\<exists>neighbors v. np_take S (nonzero_cols rec i) ax = Inr neighbors
              \<and> call_aggregate NpAverage rec i (nonzero_cols rec i) neighbors ax = Inr v
              \<and> (length v = slice_len s ax \<or> length v = 1)"
        by auto
    qed
  qed
qed

lemma nn_loop_average:
  assumes "shape0 s = shape0 S" and "shape1 s = shape1 S"
    and "\<forall>i\<in>set idxs. i < shape_at S ax \<and> (\<forall>t\<in>set (nonzero_cols rec i). t < shape_at S ax)
           \<and> (\<forall>j<shape1 rec. 0 \<le> elem rec i j)"
  shows "if \<exists>i\<in>set idxs. length (nonzero_cols rec i) = 1
         then nn_loop dt S rec NpAverage ax idxs s = Inl TypeError
         else \<exists>out. nn_loop dt S rec NpAverage ax idxs s = Inr out"
  using assms
proof (induction idxs arbitrary: s)
  case Nil
  then show ?case by simp
next
  case (Cons i rest)
  have sh: "i < shape_at s ax" "slice_len s ax = slice_len S ax"
    using Cons.prems by (auto simp: shape_at_def slice_len_def)
  from Cons.prems(3) have b: "\<forall>t\<in>set (nonzero_cols rec i). t < shape_at S ax"
    and p: "\<forall>j<shape1 rec. 0 \<le> elem rec i j" by simp_all
  note it = nn_iter_average[OF sh b p, of dt]
  show ?case
  proof (cases "length (nonzero_cols rec i) = 1")
    case True
    with it(1) show ?thesis by simp
  next
    case False
    with it(2) obtain s' where a: "nn_iter dt S rec NpAverage ax i s = Inr s'" by blast
    from nn_iter_shape[OF a] Cons.prems(1,2)
    have "shape0 s' = shape0 S" "shape1 s' = shape1 S" by simp_all
    from Cons.IH[OF this] Cons.prems(3) a False show ?thesis by simp
  qed
qed

text \<open>
  C10. Once the shape validation has passed (\<open>R\<close> being the graph the loop runs on),
  every neighbour index read from a row of \<open>R\<close> is below the length of \<open>S\<close> along the
  filtering axis and every gather succeeds. The loop runs to completion with the default
  \<open>np.mean\<close>, and with any aggregation function whose calls return values that fit a
  slice. With \<open>np.average\<close> and weights that are not negative it does not: as soon as a
  row has exactly one nonzero entry nn_filter ends with TypeError, and it runs to
  completion only when no row has exactly one nonzero entry.
\<close>

theorem nn_filter_gather_in_bounds:
  assumes "(case rec of None \<Rightarrow> recurrence_matrix S axis | Some r \<Rightarrow> Inr r) = Inr R"
    and "norm_axis axis = Inr ax" and "shape0 R = shape1 R"
    and "shape0 R = shape_at S ax"
  shows "(\<forall>i<shape0 R. \<forall>t\<in>set (nonzero_cols R i). t < shape_at S ax)
       \<and> (\<forall>i<shape0 R. \<exists>neighbors. np_take S (nonzero_cols R i) ax = Inr neighbors)
       \<and> (\<exists>out. nn_filter recurrence_matrix dt S rec None axis = Inr out)
       \<and> ((\<forall>i<shape0 R. nonzero_cols R i \<noteq> [] \<longrightarrow>
              (\<exists>neighbors v. np_take S (nonzero_cols R i) ax = Inr neighbors
                 \<and> g neighbors ax = Some v
                 \<and> (length v = slice_len S ax \<or> length v = 1)))
            \<longrightarrow> (\<exists>out. nn_filter recurrence_matrix dt S rec (Some (Other g)) axis = Inr out))
       \<and> ((\<forall>i<shape0 R. \<forall>j<shape1 R. 0 \<le> elem R i j) \<longrightarrow>
            (if \<exists>i<shape0 R. length (nonzero_cols R i) = 1
             then nn_filter recurrence_matrix dt S rec (Some NpAverage) axis = Inl TypeError
             else \<exists>out. nn_filter recurrence_matrix dt S rec (Some NpAverage) axis = Inr out))"
proof -
  have bound: "\<forall>i<shape0 R. \<forall>t\<in>set (nonzero_cols R i). t < shape_at S ax"
    using nonzero_cols_bound assms(3,4) by metis
  have gather: "\<forall>i<shape0 R. \<exists>neighbors. np_take S (nonzero_cols R i) ax = Inr neighbors"
    using bound np_take_total by blast
  have run: "\<And>agg. nn_filter recurrence_matrix dt S rec agg axis
               = nn_loop dt S R (resolve_aggregate agg) ax [0..<shape0 R] S"
    unfolding nn_filter_graph[where rec = rec and recurrence_matrix = recurrence_matrix
        and S = S and axis = axis and R = R, OF assms(1)]
    using assms(2-4) by simp
  have total: "\<And>agg. (\<forall>i<shape0 R. nonzero_cols R i \<noteq> [] \<longrightarrow>
              (\<exists>neighbors v. np_take S (nonzero_cols R i) ax = Inr neighbors
                 \<and> call_aggregate (resolve_aggregate agg) R i (nonzero_cols R i)
                      neighbors ax = Inr v
                 \<and> (length v = slice_len S ax \<or> length v = 1)))
            \<Longrightarrow> \<exists>out. nn_filter recurrence_matrix dt S rec agg axis = Inr out"
    unfolding run using assms(4) by (intro nn_loop_total) auto
  have dflt: "\<forall>i<shape0 R. nonzero_cols R i \<noteq> [] \<longrightarrow>
              (\<exists>neighbors v. np_take S (nonzero_cols R i) ax = Inr neighbors
                 \<and> call_aggregate (resolve_aggregate None) R i (nonzero_cols R i)
                      neighbors ax = Inr v
                 \<and> (length v = slice_len S ax \<or> length v = 1))"
  proof (intro allI impI)
    fix i assume i: "i < shape0 R" and ne: "nonzero_cols R i \<noteq> []"
    from bound i have b: "\<forall>t\<in>set (nonzero_cols R i). t < shape_at S ax" by simp
    from gather i obtain neighbors where t: "np_take S (nonzero_cols R i) ax = Inr neighbors"
      by blast
    from default_aggregate_total[OF t ne b, of R i] t
    show "\<exists>neighbors v. np_take S (nonzero_cols R i) ax = Inr neighbors
                 \<and> call_aggregate (resolve_aggregate None) R i (nonzero_cols R i)
                      neighbors ax = Inr v
                 \<and> (length v = slice_len S ax \<or> length v = 1)"
      by blast
  qed
  have other: "(\<forall>i<shape0 R. nonzero_cols R i \<noteq> [] \<longrightarrow>
              (\<exists>neighbors v. np_take S (nonzero_cols R i) ax = Inr neighbors
                 \<and> g neighbors ax = Some v
                 \<and> (length v = slice_len S ax \<or> length v = 1)))
            \<longrightarrow> (\<exists>out. nn_filter recurrence_matrix dt S rec (Some (Other g)) axis = Inr out)"
  proof
    assume h: "\<forall>i<shape0 R. nonzero_cols R i \<noteq> [] \<longrightarrow>
              (\<exists>neighbors v. np_take S (nonzero_cols R i) ax = Inr neighbors
                 \<and> g neighbors ax = Some v
                 \<and> (length v = slice_len S ax \<or> length v = 1))"
    show "\<exists>out. nn_filter recurrence_matrix dt S rec (Some (Other g)) axis = Inr out"
    proof (rule total, intro allI impI)
      fix i assume "i < shape0 R" and "nonzero_cols R i \<noteq> []"
      with h obtain neighbors v where
        "np_take S (nonzero_cols R i) ax = Inr neighbors" "g neighbors ax = Some v"
        "length v = slice_len S ax \<or> length v = 1" by blast
      then show "\<exists>neighbors v. np_take S (nonzero_cols R i) ax = Inr neighbors
                 \<and> call_aggregate (resolve_aggregate (Some (Other g))) R i (nonzero_cols R i)
                      neighbors ax = Inr v
                 \<and> (length v = slice_len S ax \<or> length v = 1)"
        unfolding call_aggregate_cases by auto
    qed
  qed
  have avg: "(\<forall>i<shape0 R. \<forall>j<shape1 R. 0 \<le> elem R i j) \<longrightarrow>
            (if \<exists>i<shape0 R. length (nonzero_cols R i) = 1
             then nn_filter recurrence_matrix dt S rec (Some NpAverage) axis = Inl TypeError
             else \<exists>out. nn_filter recurrence_matrix dt S rec (Some NpAverage) axis = Inr out)"
  proof
    assume nonneg: "\<forall>i<shape0 R. \<forall>j<shape1 R. 0 \<le> elem R i j"
    have pre: "\<forall>i\<in>set [0..<shape0 R]. i < shape_at S ax
                 \<and> (\<forall>t\<in>set (nonzero_cols R i). t < shape_at S ax)
                 \<and> (\<forall>j<shape1 R. 0 \<le> elem R i j)"
      using bound nonneg assms(4) by auto
    have ex: "(\<exists>i\<in>set [0..<shape0 R]. length (nonzero_cols R i) = 1)
                \<longleftrightarrow> (\<exists>i<shape0 R. length (nonzero_cols R i) = 1)"
      by auto
    from nn_loop_average[OF refl refl pre, of dt]
    show "if \<exists>i<shape0 R. length (nonzero_cols R i) = 1
          then nn_filter recurrence_matrix dt S rec (Some NpAverage) axis = Inl TypeError
          else \<exists>out. nn_filter recurrence_matrix dt S rec (Some NpAverage) axis = Inr out"
      unfolding run ex by (simp add: resolve_aggregate_def)
  qed
  from bound gather total[OF dflt] other avg show ?thesis by blast
qed

theorem nn_filter_gather_in_bounds_witness:
  "list_all (\<lambda>t. t < 3) (nonzero_cols (of_rows [[1, 0, 0], [0, 1, 0], [0, 0, 1]]) 0)
   \<and> (\<exists>neighbors. np_take (of_rows [[1, 2, 3], [4, 5, 6]])
          (nonzero_cols (of_rows [[1, 0, 0], [0, 1, 0], [0, 0, 1]]) 0) 1 = Inr neighbors)
   \<and> (\<exists>out. nn_filter (\<lambda>S axis. Inl ValueError) Float64 (of_rows [[1, 2, 3], [4, 5, 6]])
         (Some (of_rows [[1, 0, 0], [0, 1, 0], [0, 0, 1]])) None (- 1) = Inr out
        \<and> to_rows out = [[1, 2, 3], [4, 5, 6]])
   \<and> nn_filter (\<lambda>S axis. Inl ValueError) Float64 (of_rows [[1, 2, 3], [4, 5, 6]])
         (Some (of_rows [[1, 0, 0], [0, 1, 0], [0, 0, 1]])) (Some NpAverage) (- 1)
       = Inl TypeError"
proof -
  let ?S = "of_rows [[1, 2, 3], [4, 5, 6 :: real]]"
  let ?R = "of_rows [[1, 0, 0], [0, 1, 0], [0, 0, 1 :: real]]"
  let ?no = "\<lambda>(S :: real ndarray) (axis :: int). (Inl ValueError :: error + real ndarray)"
  have g: "(case Some ?R of None \<Rightarrow> ?no ?S (- 1) | Some r \<Rightarrow> Inr r) = Inr ?R" by simp
  have a: "norm_axis (- 1) = Inr 1" by (simp add: norm_axis_def)
  have b: "shape0 ?R = shape1 ?R" by (simp add: of_rows_def)
  have c: "shape0 ?R = shape_at ?S 1" by (simp add: of_rows_def shape_at_def)
  have d: "shape0 ?R = 3" "shape1 ?R = 3" "shape_at ?S 1 = 3"
    by (simp_all add: of_rows_def shape_at_def)
  note th = nn_filter_gather_in_bounds[where rec = "Some ?R" and recurrence_matrix = ?no
      and S = ?S and axis = "- 1" and R = ?R and ax = 1 and dt = Float64
      and g = "\<lambda>a ax. None", OF g a b c]
  have z: "(0::nat) < shape0 ?R" by (simp add: d)
  from th have "\<forall>i<shape0 ?R. \<forall>t\<in>set (nonzero_cols ?R i). t < shape_at ?S 1" by blast
  from this[rule_format, OF z] have p1: "list_all (\<lambda>t. t < 3) (nonzero_cols ?R 0)"
    unfolding d list_all_iff by blast
  from th have "\<forall>i<shape0 ?R. \<exists>neighbors. np_take ?S (nonzero_cols ?R i) 1 = Inr neighbors"
    by blast
  from this[rule_format, OF z]
  have p2: "\<exists>neighbors. np_take ?S (nonzero_cols ?R 0) 1 = Inr neighbors" .
  from th obtain out where o: "nn_filter ?no Float64 ?S (Some ?R) None (- 1) = Inr out"
    by blast
  then have "to_rows out = [[1, 2, 3], [4, 5, 6]]"
    by (auto simp: nn_eval)
  with o have p3: "\<exists>out. nn_filter ?no Float64 ?S (Some ?R) None (- 1) = Inr out
                     \<and> to_rows out = [[1, 2, 3], [4, 5, 6]]"
    by blast
  have nonneg: "\<forall>i<shape0 ?R. \<forall>j<shape1 ?R. 0 \<le> elem ?R i j"
    unfolding d by (simp add: of_rows_def less_Suc_eq numeral_3_eq_3)
  have one: "\<exists>i<shape0 ?R. length (nonzero_cols ?R i) = 1"
    using z by (intro exI[of _ 0]) (simp add: nn_eval)
  from th nonneg one
  have p4: "nn_filter ?no Float64 ?S (Some ?R) (Some NpAverage) (- 1) = Inl TypeError"
    by presburger
  from p1 p2 p3 p4 show ?thesis by blast
qed

lemma nn_loop_average_single_neighbor:
  assumes "i \<in> set idxs" and "length (nonzero_cols rec i) = 1"
  shows "\<exists>e. nn_loop dt S rec NpAverage ax idxs s = Inl e"
  using assms(1)
proof (induction idxs arbitrary: s)
  case Nil
  then show ?case by simp
next
  case (Cons j rest)
  show ?case
  proof (cases "nn_iter dt S rec NpAverage ax j s")
    case (Inl e)
    then show ?thesis by simp
  next
    case (Inr s')
    have "i \<noteq> j"
    proof
      assume "i = j"
      from assms(2) obtain t where "nonzero_cols rec i = [t]"
        by (cases "nonzero_cols rec i") auto
      with Inr \<open>i = j\<close> show False
        by (auto simp: nn_iter_def Let_def call_aggregate_def squeeze_def np_average_def
            split: sum.splits)
    qed
    with Cons.prems have "i \<in> set rest" by simp
    from Cons.IH[OF this] Inr show ?thesis by simp
  qed
qed

text \<open>
  C4. With \<open>aggregate=np.average\<close>, a row of \<open>rec\<close> with exactly one neighbour makes
  nn_filter fail instead of returning the (weighted) mean of that neighbour:
  \<open>squeeze()\<close> turns the single weight into a 0-d array, which \<open>np.average\<close> rejects.
  (A row with two or more neighbours is replaced by their weighted mean, the weights
  being the row's nonzero entries divided by their sum; see the evaluation below.)
\<close>

theorem nn_filter_average_single_neighbor:
  assumes "norm_axis axis = Inr ax" and "shape0 rec = shape1 rec"
    and "shape0 rec = shape_at S ax" and "i < shape0 rec"
    and "length (nonzero_cols rec i) = 1"
  shows "\<exists>e. nn_filter recurrence_matrix dt S (Some rec) (Some NpAverage) axis = Inl e"
proof -
  from assms(4) have "i \<in> set [0..<shape0 rec]" by simp
  from nn_loop_average_single_neighbor[OF this assms(5)] assms(1-3)
  show ?thesis by (simp add: nn_filter_def resolve_aggregate_def)
qed

theorem nn_filter_average_single_neighbor_witness:
  "(\<exists>out. nn_filter (\<lambda>S axis. Inl ValueError) Float64 (of_rows [[1, 2], [3, 4]])
           (Some (of_rows [[1, 3], [0, 0]])) (Some NpAverage) (- 1) = Inr out
         \<and> to_rows out = [[(1 * 1 + 2 * 3) / (1 + 3), 2], [(3 * 1 + 4 * 3) / (1 + 3), 4]])
   \<and> nn_filter (\<lambda>S axis. Inl ValueError) Float64 (of_rows [[1, 2], [3, 4]])
         (Some (of_rows [[0, 1], [1, 0]])) (Some NpAverage) (- 1) = Inl TypeError"
  using nn_filter_average_single_neighbor[of "- 1" 1 "of_rows [[0, 1], [1, 0]]"
      "of_rows [[1, 2], [3, 4]]" 0 "\<lambda>S axis. Inl ValueError" Float64]
  by (simp add: nn_eval)
section \<open>Properties of hpss\<close>

lemma elem_map_array [simp]: "elem (map_array f A) i j = f (elem A i j)"
  and shape0_map_array [simp]: "shape0 (map_array f A) = shape0 A"
  and shape1_map_array [simp]: "shape1 (map_array f A) = shape1 A"
  by (simp_all add: map_array_def)

lemma elem_map2_array [simp]: "elem (map2_array f A B) i j = f (elem A i j) (elem B i j)"
  and shape0_map2_array [simp]: "shape0 (map2_array f A B) = shape0 A"
  and shape1_map2_array [simp]: "shape1 (map2_array f A B) = shape1 A"
  by (simp_all add: map2_array_def)

lemma array_equalI:
  assumes "shape0 A = shape0 B" and "shape1 A = shape1 B"
    and "\<And>i j. i < shape0 A \<Longrightarrow> j < shape1 A \<Longrightarrow> elem A i j = elem B i j"
  shows "array_equal A B"
  using assms by (simp add: array_equal_def to_rows_def)














lemma hpss_masks_shape:
  assumes "shape0 perc = shape0 harm" and "shape1 perc = shape1 harm"
  shows "shape0 (fst (hpss_masks eps harm perc p m)) = shape0 harm"
    and "shape1 (fst (hpss_masks eps harm perc p m)) = shape1 harm"
    and "shape0 (snd (hpss_masks eps harm perc p m)) = shape0 harm"
    and "shape1 (snd (hpss_masks eps harm perc p m)) = shape1 harm"
  using assms by (simp_all add: hpss_masks_def hard_masks_def soft_masks_def Let_def)










text \<open>The unfolding rules that evaluate hpss on a concrete input.\<close>

lemmas hpss_eval = hpss_def hpss_responses_def kernel_windows_def median_filter_def filter_size_def
  window_def reflect_def median_def hpss_masks_def hard_masks_def soft_masks_def masked_def
  map_array_def map2_array_def of_rows_def to_rows_def out_add_def embed_def out_equal_def
  array_equal_def np_power_def Let_def upt_rec magphase_def np_mul_complex_def np_add_complex_def
  well_formed_def positive_int_def magnitude_like_def nonnegative_def real_rows_def





lemma hpss_responses_errors:
  "hpss_responses S kernel_size = Inl e \<Longrightarrow> e \<in> {IndexError, TypeError, ValueError, RuntimeError}"
  by (auto simp: hpss_responses_def Let_def kernel_windows_def median_filter_def filter_size_def
      split: sum.splits kernel_size.splits list.splits pyval.splits if_splits prod.splits)

lemma hpss_responses_malformed:
  assumes "\<not> well_formed kernel_size"
  shows "\<exists>e. hpss_responses S kernel_size = Inl e"
proof (cases "kernel_windows kernel_size")
  case (Inl e)
  then show ?thesis by (simp add: hpss_responses_def Let_def split: prod.splits)
next
  case (Inr w)
  obtain a b where w: "w = (a, b)" by (cases w)
  with Inr assms have bad: "\<not> positive_int a \<or> \<not> positive_int b"
    by (simp add: well_formed_def)
  have one: "filter_size (PyInt 1) = Inr 1" by (simp add: filter_size_def)
  have fa: "\<not> positive_int a \<Longrightarrow> \<exists>e. filter_size a = Inl e"
    and fb: "\<not> positive_int b \<Longrightarrow> \<exists>e. filter_size b = Inl e"
    by (auto simp: positive_int_def filter_size_def split: pyval.splits)
  from bad show ?thesis
  proof
    assume "\<not> positive_int a"
    from fa[OF this] obtain e where "filter_size a = Inl e" ..
    with Inr w one show ?thesis
      by (simp add: hpss_responses_def Let_def median_filter_def split: prod.splits)
  next
    assume "\<not> positive_int b"
    from fb[OF this] obtain e where "filter_size b = Inl e" ..
    with Inr w one show ?thesis
      by (auto simp: hpss_responses_def Let_def median_filter_def split: prod.splits sum.splits)
  qed
qed

text \<open>
  C7 (as amended). hpss validates nothing and never ends with ParameterError: a malformed
  \<open>kernel_size\<close> (a window that is not a positive integer, or a sequence too short to
  index) makes it fail with the error of the indexing or of the median filter, which is
  IndexError, TypeError, ValueError or RuntimeError.
\<close>

theorem hpss_no_ParameterError:
  "hpss small_float S kernel_size power' mask' \<noteq> Inl ParameterError
   \<and> (\<not> well_formed kernel_size \<longrightarrow>
        hpss small_float S kernel_size power' mask'
          \<in> {Inl IndexError, Inl TypeError, Inl ValueError, Inl RuntimeError})"
proof (intro conjI impI)
  show "hpss small_float S kernel_size power' mask' \<noteq> Inl ParameterError"
    using hpss_responses_errors[of S kernel_size ParameterError]
    by (auto simp: hpss_def Let_def split: sum.splits prod.splits)
next
  assume "\<not> well_formed kernel_size"
  from hpss_responses_malformed[OF this] obtain e where
    e: "hpss_responses S kernel_size = Inl e" ..
  from hpss_responses_errors[OF e] e
  show "hpss small_float S kernel_size power' mask'
          \<in> {Inl IndexError, Inl TypeError, Inl ValueError, Inl RuntimeError}"
    by (auto simp: hpss_def)
qed

theorem hpss_no_ParameterError_witness:
  "hpss (1 / 10 ^ 20) (RealS (of_rows [[1]])) (Scalar (PyFloat (5 / 2))) 2 False = Inl TypeError"
  using hpss_no_ParameterError[of "1 / 10 ^ 20" "RealS (of_rows [[1]])" "Scalar (PyFloat (5 / 2))"
      2 False]
  by (simp add: hpss_eval)

theorem hpss_no_ParameterError_counterexample:
  "hpss (1 / 10 ^ 20) (RealS (of_rows [[1, 2], [3, 4]])) (Scalar (PyInt 0)) 2 False
     = Inl RuntimeError
   \<and> hpss (1 / 10 ^ 20) (RealS (of_rows [[1, 2], [3, 4]])) (Sequence [PyInt 3, PyInt (- 1)]) 2 False
     = Inl ValueError
   \<and> hpss (1 / 10 ^ 20) (RealS (of_rows [[1, 2], [3, 4]])) (Scalar (PyInt 0)) 2 False
     \<noteq> Inl ParameterError"
  by (simp add: hpss_eval)

section \<open>Properties of decompose\<close>

lemma sum_list_permuted:
  fixes f :: "nat \<Rightarrow> real"
  assumes "mset idx = mset [0..<k]"
  shows "sum_list (map (\<lambda>t. f (idx ! t)) [0..<k]) = sum_list (map f [0..<k])"
proof -
  from assms have len: "length idx = k" by (metis length_upt minus_nat.diff_0 size_mset)
  have "map (\<lambda>t. f (idx ! t)) [0..<k] = map f idx"
    using len by (intro nth_equalityI) simp_all
  moreover have "sum_list (map f idx) = sum_mset (image_mset f (mset idx))"
    by (metis mset_map sum_mset_sum_list)
  moreover have "sum_list (map f [0..<k]) = sum_mset (image_mset f (mset [0..<k]))"
    by (metis mset_map sum_mset_sum_list)
  ultimately show ?thesis using assms by simp
qed

lemma axis_sort_permutation:
  assumes "axis_sort C = (C1, idx)"
  shows "mset idx = mset [0..<shape1 C]"
    and "shape0 C1 = shape0 C" and "shape1 C1 = shape1 C"
    and "elem C1 i j = elem C i (idx ! j)"
  using assms by (auto simp: axis_sort_def Let_def)

lemma index_rows_permutation:
  assumes "mset idx = mset [0..<shape0 A]"
  shows "index_rows A idx = Inr (NDArray (shape0 A) (shape1 A) (\<lambda>i j. elem A (idx ! i) j))"
proof -
  from assms have "set idx = {0..<shape0 A}" by (metis mset_eq_setD set_upt)
  moreover from assms have "length idx = shape0 A"
    by (metis length_upt minus_nat.diff_0 size_mset)
  ultimately show ?thesis by (auto simp: index_rows_def list_ex_iff)
qed

text \<open>
  C6. Whenever decompose without sorting returns components and activations that pair up
  (as many activation rows as component columns), decompose with \<open>sort=True\<close> returns
  too, the product of what it returns equals the product of the unsorted pair, and the
  transformer is left in the same state as without sorting.
\<close>

theorem decompose_sort_preserves_product:
  assumes "decompose sk S n_components transformer False fit kwargs = Inr (C, A, st)"
    and "shape0 A = shape1 C"
  shows "\<exists>C1 A1. decompose sk S n_components transformer True fit kwargs = Inr (C1, A1, st)
           \<and> (\<exists>R R1. dot C A = Inr R \<and> dot C1 A1 = Inr R1 \<and> array_equal R1 R)"
proof -
  obtain C1 idx where s: "axis_sort C = (C1, idx)" by (cases "axis_sort C")
  note p = axis_sort_permutation[OF s]
  from p(1) assms(2) have pa: "mset idx = mset [0..<shape0 A]" by simp
  define A1 where "A1 = NDArray (shape0 A) (shape1 A) (\<lambda>i j. elem A (idx ! i) j)"
  from index_rows_permutation[OF pa] have ir: "index_rows A idx = Inr A1"
    by (simp add: A1_def)
  have run: "decompose sk S n_components transformer True fit kwargs = Inr (C1, A1, st)"
    using assms(1) s ir
    by (auto simp: decompose_def Let_def split: sum.splits option.splits if_splits prod.splits)
  define R where "R = NDArray (shape0 C) (shape1 A)
      (\<lambda>i j. sum_list (map (\<lambda>k. elem C i k * elem A k j) [0..<shape1 C]))"
  define R1 where "R1 = NDArray (shape0 C1) (shape1 A1)
      (\<lambda>i j. sum_list (map (\<lambda>k. elem C1 i k * elem A1 k j) [0..<shape1 C1]))"
  have d: "dot C A = Inr R" using assms(2) by (simp add: dot_def R_def)
  have d1: "dot C1 A1 = Inr R1" using assms(2) p(3) by (simp add: dot_def R1_def A1_def)
  have "array_equal R1 R"
  proof (rule array_equalI)
    show "shape0 R1 = shape0 R" and "shape1 R1 = shape1 R"
      using p(2) by (simp_all add: R_def R1_def A1_def)
  next
    fix i j
    have "sum_list (map (\<lambda>k. elem C i (idx ! k) * elem A (idx ! k) j) [0..<shape1 C])
            = sum_list (map (\<lambda>k. elem C i k * elem A k j) [0..<shape1 C])"
      using sum_list_permuted[OF p(1), of "\<lambda>k. elem C i k * elem A k j"] .
    then show "elem R1 i j = elem R i j"
      by (simp add: R_def R1_def A1_def p(3) p(4))
  qed
  with run d d1 show ?thesis by blast
qed

text \<open>
  C8. With \<open>n_components=None\<close> and no transformer, the factorization uses
  \<open>S.shape[0]\<close> components. decompose constructs \<open>NMF(n_components=None, **kwargs)\<close> and
  fits it to \<open>S.T\<close>, whose features are the rows of \<open>S\<close>; a factorizer that keeps all
  features when it is given \<open>None\<close> (as scikit-learn's NMF documents) then has
  \<open>S.shape[0]\<close> components. So whenever the fit returns, decompose returns components
  with \<open>S.shape[0]\<close> columns and activations with \<open>S.shape[0]\<close> rows, sorted or not.
\<close>

theorem decompose_default_components:
  assumes "keeps_all_features sk"
    and "fit_transform sk (NMF sk None kwargs) (transpose_array S) = Inr (st, Y)"
  shows "\<exists>C A. decompose sk S None None sort' True kwargs = Inr (C, A, st)
           \<and> shape1 C = shape0 S \<and> shape0 A = shape0 S"
proof -
  from assms obtain Cs where y: "shape1 Y = shape0 S"
    and c: "components_attr sk st = Inr Cs" and k: "shape0 Cs = shape0 S"
    unfolding keeps_all_features_def
    by (fastforce simp: transpose_array_def)
  show ?thesis
  proof (cases sort')
    case False
    with assms(2) c y k show ?thesis
      by (simp add: decompose_def transpose_array_def)
  next
    case True
    obtain C1 idx where s: "axis_sort (transpose_array Cs) = (C1, idx)"
      by (cases "axis_sort (transpose_array Cs)")
    note p = axis_sort_permutation[OF s]
    from p(1) y k have "mset idx = mset [0..<shape0 (transpose_array Y)]"
      by (simp add: transpose_array_def)
    from index_rows_permutation[OF this] obtain A1 where
      ir: "index_rows (transpose_array Y) idx = Inr A1"
      and a: "shape0 A1 = shape0 (transpose_array Y)"
      by auto
    from True assms(2) c s ir
    have "decompose sk S None None sort' True kwargs = Inr (C1, A1, st)"
      by (simp add: decompose_def)
    moreover have "shape1 C1 = shape0 S" using p(3) k by (simp add: transpose_array_def)
    moreover have "shape0 A1 = shape0 S" using a y by (simp add: transpose_array_def)
    ultimately show ?thesis by blast
  qed
qed

text \<open>The unfolding rules that evaluate decompose on a concrete input.\<close>

lemmas decompose_eval = decompose_def toy_sklearn_def fixed_sklearn_def transpose_array_def
  of_rows_def to_rows_def axis_sort_def peak_index_def index_rows_def dot_def array_equal_def
  Let_def upt_rec

theorem decompose_sort_preserves_product_witness:
  "\<exists>C1 A1. decompose (fixed_sklearn (of_rows [[0, 7], [9, 0]]) (of_rows [[1, 2], [3, 4], [5, 6]]))
              (of_rows [[18, 36, 54], [7, 21, 35]]) None None True True ()
            = Inr (C1, A1, ())
         \<and> to_rows C1 = [[9, 0], [0, 7]]
         \<and> to_rows A1 = [[2, 4, 6], [1, 3, 5]]
         \<and> (\<exists>R R1. dot (transpose_array (of_rows [[0, 7], [9, 0]]))
                        (transpose_array (of_rows [[1, 2], [3, 4], [5, 6]])) = Inr R
                 \<and> dot C1 A1 = Inr R1 \<and> array_equal R1 R)"
proof -
  let ?Cs = "of_rows [[0, 7], [9, 0 :: real]]"
  let ?Y = "of_rows [[1, 2], [3, 4], [5, 6 :: real]]"
  let ?sk = "fixed_sklearn ?Cs ?Y"
  let ?S = "of_rows [[18, 36, 54], [7, 21, 35 :: real]]"
  have u: "decompose ?sk ?S None None False True ()
             = Inr (transpose_array ?Cs, transpose_array ?Y, ())"
    by (simp add: decompose_def fixed_sklearn_def)
  have sh: "shape0 (transpose_array ?Y) = shape1 (transpose_array ?Cs)"
    by (simp add: transpose_array_def of_rows_def)
  from decompose_sort_preserves_product[OF u sh] obtain C1 A1 R R1 where
    s: "decompose ?sk ?S None None True True () = Inr (C1, A1, ())"
    and d: "dot (transpose_array ?Cs) (transpose_array ?Y) = Inr R" "dot C1 A1 = Inr R1"
      "array_equal R1 R"
    by blast
  from s have r: "to_rows C1 = [[9, 0], [0, 7]]" "to_rows A1 = [[2, 4, 6], [1, 3, 5]]"
    by (auto simp: decompose_eval)
  from s r d show ?thesis by blast
qed

theorem decompose_default_components_witness:
  "keeps_all_features toy_sklearn
   \<and> (\<exists>C A st. decompose toy_sklearn (of_rows [[1, 2, 3], [4, 5, 6]]) None None False True ()
                  = Inr (C, A, st)
          \<and> shape1 C = 2 \<and> shape0 A = 2 \<and> shape0 C = 2 \<and> shape1 A = 3 \<and> fst st = None)
   \<and> (\<exists>C A st. decompose toy_sklearn (of_rows [[1, 2, 3], [4, 5, 6]]) (Some 2) None False True ()
                  = Inr (C, A, st)
          \<and> shape1 C = 2 \<and> shape0 A = 2)
   \<and> (\<exists>C A st. decompose toy_sklearn (of_rows [[1, 2, 3], [4, 5, 6]]) (Some 1) None False True ()
                  = Inr (C, A, st)
          \<and> shape1 C = 1 \<and> shape0 A = 1)"
proof -
  let ?S = "of_rows [[1, 2, 3], [4, 5, 6 :: real]]"
  have k: "keeps_all_features toy_sklearn"
    by (auto simp: keeps_all_features_def toy_sklearn_def Let_def)
  have f: "fit_transform toy_sklearn (NMF toy_sklearn None ()) (transpose_array ?S)
             = Inr ((None, Some (NDArray 2 2 (\<lambda>i j. 1))), NDArray 3 2 (\<lambda>i j. 1))"
    by (simp add: toy_sklearn_def transpose_array_def of_rows_def)
  from decompose_default_components[OF k f, of False] obtain C A where
    d: "decompose toy_sklearn ?S None None False True ()
          = Inr (C, A, (None, Some (NDArray 2 2 (\<lambda>i j. 1))))"
    and n: "shape1 C = shape0 ?S" "shape0 A = shape0 ?S"
    by blast
  from d have "shape0 C = 2" "shape1 A = 3"
    by (auto simp: decompose_eval)
  with d n have one: "\<exists>C A st. decompose toy_sklearn ?S None None False True () = Inr (C, A, st)
          \<and> shape1 C = 2 \<and> shape0 A = 2 \<and> shape0 C = 2 \<and> shape1 A = 3 \<and> fst st = None"
    by (simp add: of_rows_def)
  have two: "\<exists>C A st. decompose toy_sklearn ?S (Some 2) None False True () = Inr (C, A, st)
          \<and> shape1 C = 2 \<and> shape0 A = 2"
    by (simp add: decompose_eval)
  have three: "\<exists>C A st. decompose toy_sklearn ?S (Some 1) None False True () = Inr (C, A, st)
          \<and> shape1 C = 1 \<and> shape0 A = 1"
    by (simp add: decompose_eval)
  from k one two three show ?thesis by blast
qed
section \<open>What hpss and nn_filter write to\<close>

lemma hpss_return_frame:
  assumes "hpss_return S phase mh mp s = (r, s')"
  shows "fresh s \<le> fresh s'" and "a < fresh s \<Longrightarrow> objs s' a = objs s a"
    and "\<exists>h p. r = Inr (h, p) \<and> fresh s \<le> h \<and> fresh s \<le> p \<and> h < fresh s' \<and> p < fresh s'"
  using assms by (auto simp: hpss_return_def alloc_def Let_def)

lemma hpss_hard_frame:
  assumes "hpss_hard harm perc s = (r, s')"
  shows "fresh s \<le> fresh s'" and "a < fresh s \<Longrightarrow> objs s' a = objs s a"
    and "fresh s \<le> fst r \<and> fresh s \<le> snd r \<and> fst r < fresh s' \<and> snd r < fresh s'"
  using assms by (auto simp: hpss_hard_def alloc_def Let_def)

lemma hpss_soft_frame:
  assumes "hpss_soft eps harm perc p s = (r, s')"
  shows "fresh s \<le> fresh s'" and "a < fresh s \<Longrightarrow> objs s' a = objs s a"
    and "fresh s \<le> fst r \<and> fresh s \<le> snd r \<and> fst r < fresh s' \<and> snd r < fresh s'"
  using assms by (auto simp: hpss_soft_def alloc_def put_def Let_def)

lemma hpss_masks_store_frame:
  assumes "(if m \<or> p < eps then hpss_hard harm perc s else hpss_soft eps harm perc p s) = (r, s')"
  shows "fresh s \<le> fresh s'" and "a < fresh s \<Longrightarrow> objs s' a = objs s a"
    and "fresh s \<le> fst r \<and> fresh s \<le> snd r \<and> fst r < fresh s' \<and> snd r < fresh s'"
  using assms hpss_hard_frame[of harm perc s r s'] hpss_soft_frame[of eps harm perc p s r s']
  by (auto split: if_splits)

lemma hpss_store_frame:
  assumes "hpss_store eps aS k p m s0 = (r, s')"
  shows "fresh s0 \<le> fresh s'"
    and "a < fresh s0 \<Longrightarrow> objs s' a = objs s0 a"
    and "r = Inr (h, q) \<Longrightarrow> fresh s0 \<le> h \<and> fresh s0 \<le> q \<and> h < fresh s' \<and> q < fresh s'"
proof -
  have "fresh s0 \<le> fresh s' \<and> (a < fresh s0 \<longrightarrow> objs s' a = objs s0 a)
        \<and> (r = Inr (h, q) \<longrightarrow> fresh s0 \<le> h \<and> fresh s0 \<le> q \<and> h < fresh s' \<and> q < fresh s')"
  proof (cases "case objs s0 aS of
              Some (RealArr dt A) \<Rightarrow> Inr (A, None)
            | Some (ComplexArr D) \<Rightarrow> Inr (fst (magphase D), Some (snd (magphase D)))
            | _ \<Rightarrow> (Inl TypeError :: error + real ndarray \<times> complex ndarray option)")
    case (Inl e)
    with assms show ?thesis by (auto simp: hpss_store_def)
  next
    case (Inr Sp)
    obtain S phase where Sp: "Sp = (S, phase)" by (cases Sp)
    show ?thesis
    proof (cases "kernel_windows k")
      case (Inl e)
      with assms Inr Sp show ?thesis by (auto simp: hpss_store_def)
    next
      case w: (Inr ws)
      obtain wh wp where ws: "ws = (wh, wp)" by (cases ws)
      define s1 where "s1 = snd (alloc (RealArr Float64 (NDArray (shape0 S) (shape1 S) (\<lambda>i j. 0))) s0)"
      define harm where "harm = fresh s0"
      have a1: "alloc (RealArr Float64 (NDArray (shape0 S) (shape1 S) (\<lambda>i j. 0))) s0 = (harm, s1)"
        by (simp add: s1_def harm_def alloc_def)
      have f1: "fresh s1 = Suc (fresh s0)" "\<And>b. b < fresh s0 \<Longrightarrow> objs s1 b = objs s0 b"
        by (simp_all add: s1_def alloc_def)
      show ?thesis
      proof (cases "median_filter S (PyInt 1, wh)")
        case (Inl e)
        with assms Inr Sp w ws a1 f1 show ?thesis by (auto simp: hpss_store_def)
      next
        case F: (Inr F)
        define s2 where "s2 = put harm (RealArr Float64 F) s1"
        define s3 where "s3 = snd (alloc (RealArr Float64 (NDArray (shape0 S) (shape1 S) (\<lambda>i j. 0))) s2)"
        define perc where "perc = fresh s2"
        have a3: "alloc (RealArr Float64 (NDArray (shape0 S) (shape1 S) (\<lambda>i j. 0))) s2 = (perc, s3)"
          by (simp add: s3_def perc_def alloc_def)
        have f3: "fresh s3 = Suc (Suc (fresh s0))" "\<And>b. b < fresh s0 \<Longrightarrow> objs s3 b = objs s0 b"
          using f1 by (simp_all add: s3_def s2_def alloc_def put_def harm_def)
        show ?thesis
        proof (cases "median_filter S (wp, PyInt 1)")
          case (Inl e)
          with assms Inr Sp w ws a1 F a3 f3 show ?thesis
            by (auto simp: hpss_store_def s2_def[symmetric])
        next
          case G: (Inr G)
          define s4 where "s4 = put perc (RealArr Float64 G) s3"
          have f4: "fresh s4 = Suc (Suc (fresh s0))" "\<And>b. b < fresh s0 \<Longrightarrow> objs s4 b = objs s0 b"
            using f3 f1 by (simp_all add: s4_def put_def perc_def s2_def harm_def)
          obtain ms s5 where ms: "(if m \<or> p < eps then hpss_hard harm perc s4
                                   else hpss_soft eps harm perc p s4) = (ms, s5)"
            by (cases "if m \<or> p < eps then hpss_hard harm perc s4 else hpss_soft eps harm perc p s4")
          note f5 = hpss_masks_store_frame[OF ms]
          obtain mh mp where mm: "ms = (mh, mp)" by (cases ms)
          have run: "hpss_store eps aS k p m s0 =
                (if m then (Inr (mh, mp), s5) else hpss_return S phase mh mp s5)"
            using Inr Sp w ws a1 F a3 G ms mm
            by (auto simp: hpss_store_def s2_def[symmetric] s4_def[symmetric] split: if_splits)
          show ?thesis
          proof (cases m)
            case True
            with run assms have "r = Inr (mh, mp)" "s' = s5" by simp_all
            with f5 f4 mm show ?thesis by auto
          next
            case False
            with run assms have rr: "hpss_return S phase mh mp s5 = (r, s')" by simp
            note f6 = hpss_return_frame[OF rr]
            from f6(1) f5(1) f4(1) have "fresh s0 \<le> fresh s'" by simp
            moreover have "a < fresh s0 \<longrightarrow> objs s' a = objs s0 a"
              using f6(2)[of a] f5(2)[of a] f5(1) f4 by auto
            moreover have "r = Inr (h, q) \<longrightarrow>
                fresh s0 \<le> h \<and> fresh s0 \<le> q \<and> h < fresh s' \<and> q < fresh s'"
              using f6(3) f5(1) f4(1) by auto
            ultimately show ?thesis by blast
          qed
        qed
      qed
    qed
  qed
  then show "fresh s0 \<le> fresh s'"
    and "a < fresh s0 \<Longrightarrow> objs s' a = objs s0 a"
    and "r = Inr (h, q) \<Longrightarrow> fresh s0 \<le> h \<and> fresh s0 \<le> q \<and> h < fresh s' \<and> q < fresh s'"
    by blast+
qed

lemma nn_loop_store_frame:
  assumes "nn_loop_store aS rec aggregate ax idxs s_out s = (r, s')"
  shows "fresh s' = fresh s" and "a \<noteq> s_out \<Longrightarrow> objs s' a = objs s a"
proof -
  have "fresh s' = fresh s \<and> (a \<noteq> s_out \<longrightarrow> objs s' a = objs s a)"
    using assms
  proof (induction idxs arbitrary: s)
    case Nil
    then show ?case by simp
  next
    case (Cons i rest)
    show ?case
    proof (cases "nn_iter (dtype_at s s_out) (real_at s aS) (graph_at s rec) aggregate ax i
                    (real_at s s_out)")
      case (Inl e)
      with Cons.prems show ?thesis by simp
    next
      case (Inr v)
      with Cons.prems have
        "nn_loop_store aS rec aggregate ax rest s_out
           (put s_out (RealArr (dtype_at s s_out) v) s) = (r, s')"
        by simp
      from Cons.IH[OF this] show ?thesis by (simp add: put_def)
    qed
  qed
  then show "fresh s' = fresh s" and "a \<noteq> s_out \<Longrightarrow> objs s' a = objs s a" by simp_all
qed

lemma nn_filter_store_frame:
  assumes "nn_filter_store recurrence_matrix aS rec aggregate axis s0 = (r, s')"
  shows "fresh s0 \<le> fresh s'"
    and "a < fresh s0 \<Longrightarrow> objs s' a = objs s0 a"
    and "r = Inr out \<Longrightarrow> fresh s0 \<le> out \<and> out < fresh s'"
proof -
  define g where "g = (case rec of
              None \<Rightarrow>
                (case recurrence_matrix (real_at s0 aS) axis of
                   Inl e \<Rightarrow> (Inl e, s0)
                 | Inr R \<Rightarrow> (case alloc (SparseArr R) s0 of (a, s1) \<Rightarrow> (Inr a, s1)))
            | Some a \<Rightarrow>
                (case objs s0 a of
                   Some (SparseArr R) \<Rightarrow> (Inr a, s0)
                 | _ \<Rightarrow>
                     (case alloc (SparseArr (graph_at s0 a)) s0 of (a1, s1) \<Rightarrow> (Inr a1, s1))))"
  obtain gr s1 where g: "g = (gr, s1)" by (cases g)
  have f1: "fresh s0 \<le> fresh s1" "\<And>b. b < fresh s0 \<Longrightarrow> objs s1 b = objs s0 b"
    using g unfolding g_def
    by (auto simp: alloc_def split: option.splits sum.splits obj.splits)
  have "fresh s0 \<le> fresh s' \<and> (a < fresh s0 \<longrightarrow> objs s' a = objs s0 a)
        \<and> (r = Inr out \<longrightarrow> fresh s0 \<le> out \<and> out < fresh s')"
  proof (cases gr)
    case (Inl e)
    with assms g f1 show ?thesis
      by (auto simp: nn_filter_store_def g_def[symmetric])
  next
    case (Inr rec1)
    show ?thesis
    proof (cases "norm_axis axis")
      case (Inl e)
      with assms g f1 Inr show ?thesis
        by (auto simp: nn_filter_store_def g_def[symmetric])
    next
      case ax: (Inr ax)
      show ?thesis
      proof (cases "shape0 (graph_at s1 rec1) \<noteq> shape_at (real_at s1 aS) ax
                  \<or> shape0 (graph_at s1 rec1) \<noteq> shape1 (graph_at s1 rec1)")
        case True
        with assms g f1 Inr ax show ?thesis
          by (auto simp: nn_filter_store_def g_def[symmetric])
      next
        case False
        define s2 where "s2 = snd (alloc (RealArr (dtype_at s1 aS) (real_at s1 aS)) s1)"
        define s_out where "s_out = fresh s1"
        have a2: "alloc (RealArr (dtype_at s1 aS) (real_at s1 aS)) s1 = (s_out, s2)"
          by (simp add: s2_def s_out_def alloc_def)
        have f2: "fresh s2 = Suc (fresh s1)" "\<And>b. b < fresh s1 \<Longrightarrow> objs s2 b = objs s1 b"
          by (simp_all add: s2_def alloc_def)
        obtain lr s3 where l: "nn_loop_store aS rec1 (resolve_aggregate aggregate) ax
                                 [0..<shape0 (graph_at s2 rec1)] s_out s2 = (lr, s3)"
          by (cases "nn_loop_store aS rec1 (resolve_aggregate aggregate) ax
                                 [0..<shape0 (graph_at s2 rec1)] s_out s2")
        note f3 = nn_loop_store_frame[OF l]
        have run: "nn_filter_store recurrence_matrix aS rec aggregate axis s0
                     = (case lr of Inl e \<Rightarrow> (Inl e, s3) | Inr u \<Rightarrow> (Inr s_out, s3))"
          using g Inr ax False a2 l
          by (simp add: nn_filter_store_def g_def[symmetric] Let_def split: sum.splits)
        with assms have s': "s' = s3" and r: "r = Inr out \<longrightarrow> out = s_out"
          by (auto split: sum.splits)
        have "a < fresh s0 \<longrightarrow> objs s' a = objs s0 a"
          using f3(2)[of a] f2 f1 s' by (auto simp: s_out_def)
        moreover have "fresh s0 \<le> fresh s'" using f3(1) f2(1) f1(1) s' by simp
        moreover have "r = Inr out \<longrightarrow> fresh s0 \<le> out \<and> out < fresh s'"
          using r f3(1) f2(1) f1(1) s' by (auto simp: s_out_def)
        ultimately show ?thesis by blast
      qed
    qed
  qed
  then show "fresh s0 \<le> fresh s'"
    and "a < fresh s0 \<Longrightarrow> objs s' a = objs s0 a"
    and "r = Inr out \<Longrightarrow> fresh s0 \<le> out \<and> out < fresh s'"
    by blast+
qed

text \<open>
  C9. Neither hpss nor nn_filter writes to an object that existed before the call: after
  any call, returning or raising, every object allocated before it (the input \<open>S\<close> and
  a supplied \<open>rec\<close> among them) is unchanged, and the arrays returned are objects
  allocated during the call. (nn_filter's result starts as a copy of \<open>S\<close>.)
\<close>

theorem inputs_not_mutated:
  "(hpss_store small_float aS kernel_size power' mask' s0 = (r, s') \<longrightarrow>
      (\<forall>a<fresh s0. objs s' a = objs s0 a)
      \<and> (\<forall>h q. r = Inr (h, q) \<longrightarrow> fresh s0 \<le> h \<and> fresh s0 \<le> q))
   \<and> (nn_filter_store recurrence_matrix aS rec aggregate axis s0 = (r2, s2) \<longrightarrow>
      (\<forall>a<fresh s0. objs s2 a = objs s0 a)
      \<and> (\<forall>out. r2 = Inr out \<longrightarrow> fresh s0 \<le> out))"
  using hpss_store_frame(2,3)[of small_float aS kernel_size power' mask' s0 r s']
    nn_filter_store_frame(2,3)[of recurrence_matrix aS rec aggregate axis s0 r2 s2]
  by blast

theorem inputs_not_mutated_witness:
  "objs (snd (hpss_store (1 / 10 ^ 20) 0 (Scalar (PyInt 3)) 2 False
                \<lparr>objs = [0 \<mapsto> RealArr Float64 (of_rows [[1, 2], [3, 4]]),
                          1 \<mapsto> RealArr Float64 (of_rows [[0, 1], [1, 1]])], fresh = 2\<rparr>)) 0
     = Some (RealArr Float64 (of_rows [[1, 2], [3, 4]]))
   \<and> objs (snd (nn_filter_store (\<lambda>S axis. Inl ValueError) 0 (Some 1) None (- 1)
                \<lparr>objs = [0 \<mapsto> RealArr Float64 (of_rows [[1, 2], [3, 4]]),
                          1 \<mapsto> RealArr Float64 (of_rows [[0, 1], [1, 1]])], fresh = 2\<rparr>)) 0
     = Some (RealArr Float64 (of_rows [[1, 2], [3, 4]]))
   \<and> objs (snd (nn_filter_store (\<lambda>S axis. Inl ValueError) 0 (Some 1) None (- 1)
                \<lparr>objs = [0 \<mapsto> RealArr Float64 (of_rows [[1, 2], [3, 4]]),
                          1 \<mapsto> RealArr Float64 (of_rows [[0, 1], [1, 1]])], fresh = 2\<rparr>)) 1
     = Some (RealArr Float64 (of_rows [[0, 1], [1, 1]]))
   \<and> fst (nn_filter_store (\<lambda>S axis. Inl ValueError) 0 (Some 1) None (- 1)
                \<lparr>objs = [0 \<mapsto> RealArr Float64 (of_rows [[1, 2], [3, 4]]),
                          1 \<mapsto> RealArr Float64 (of_rows [[0, 1], [1, 1]])], fresh = 2\<rparr>) = Inr 3"
proof -
  let ?s0 = "\<lparr>objs = [0 \<mapsto> RealArr Float64 (of_rows [[1, 2], [3, 4 :: real]]),
                          1 \<mapsto> RealArr Float64 (of_rows [[0, 1], [1, 1 :: real]])], fresh = 2\<rparr>"
  let ?h = "hpss_store (1 / 10 ^ 20) 0 (Scalar (PyInt 3)) 2 False ?s0"
  let ?n = "nn_filter_store (\<lambda>S axis. Inl ValueError) 0 (Some 1) None (- 1) ?s0"
  note th = inputs_not_mutated[of "1 / 10 ^ 20" 0 "Scalar (PyInt 3)" 2 False ?s0 "fst ?h" "snd ?h"
      "\<lambda>S axis. Inl ValueError" "Some 1" None "- 1" "fst ?n" "snd ?n"]
  have a: "\<forall>a<fresh ?s0. objs (snd ?h) a = objs ?s0 a"
    and b: "\<forall>a<fresh ?s0. objs (snd ?n) a = objs ?s0 a"
    using th by simp_all
  have f: "(0::nat) < fresh ?s0" "(1::nat) < fresh ?s0" by simp_all
  have r: "fst ?n = Inr 3"
    by (simp add: nn_filter_store_def nn_eval alloc_def put_def real_at_def graph_at_def
        dtype_at_def)
  from a[rule_format, OF f(1)] b[rule_format, OF f(1)] b[rule_format, OF f(2)] r
  show ?thesis by simp
qed

text \<open>
  The store model computes what the functions on values compute: the result of
  \<open>nn_filter_store\<close> is the object holding the array that \<open>nn_filter\<close> returns, and
  both raise the same errors.
\<close>

lemma nn_loop_store_refines:
  assumes "s_out \<noteq> aS" and "s_out \<noteq> rec" and "objs s s_out = Some (RealArr dt v)"
  shows "case nn_loop_store aS rec aggregate ax idxs s_out s of
           (Inl e, s') \<Rightarrow> nn_loop dt (real_at s aS) (graph_at s rec) aggregate ax idxs v = Inl e
         | (Inr u, s') \<Rightarrow>
             nn_loop dt (real_at s aS) (graph_at s rec) aggregate ax idxs v
               = Inr (real_at s' s_out)
             \<and> dtype_at s' s_out = dt"
  using assms(3)
proof (induction idxs arbitrary: s v)
  case Nil
  then show ?case by (simp add: real_at_def dtype_at_def)
next
  case (Cons i rest)
  from Cons.prems have v: "real_at s s_out = v" "dtype_at s s_out = dt"
    by (simp_all add: real_at_def dtype_at_def)
  show ?case
  proof (cases "nn_iter dt (real_at s aS) (graph_at s rec) aggregate ax i v")
    case (Inl e)
    with v show ?thesis by simp
  next
    case (Inr w)
    let ?s = "put s_out (RealArr dt w) s"
    have same: "real_at ?s aS = real_at s aS" "graph_at ?s rec = graph_at s rec"
      using assms(1,2) by (simp_all add: put_def real_at_def graph_at_def)
    have "objs ?s s_out = Some (RealArr dt w)" by (simp add: put_def)
    from Cons.IH[OF this, unfolded same] Inr v show ?thesis
      by (simp split: prod.splits sum.splits)
  qed
qed

lemma nn_filter_store_refines:
  assumes "aS < fresh s0"
    and "case rec of None \<Rightarrow> True | Some a \<Rightarrow> a < fresh s0"
  shows "case nn_filter_store recurrence_matrix aS rec aggregate axis s0 of
           (Inl e, s') \<Rightarrow>
             nn_filter recurrence_matrix (dtype_at s0 aS) (real_at s0 aS)
               (map_option (graph_at s0) rec) aggregate axis = Inl e
         | (Inr out, s') \<Rightarrow>
             nn_filter recurrence_matrix (dtype_at s0 aS) (real_at s0 aS)
               (map_option (graph_at s0) rec) aggregate axis = Inr (real_at s' out)
             \<and> dtype_at s' out = dtype_at s0 aS"
proof -
  define g where "g = (case rec of
              None \<Rightarrow>
                (case recurrence_matrix (real_at s0 aS) axis of
                   Inl e \<Rightarrow> (Inl e, s0)
                 | Inr R \<Rightarrow> (case alloc (SparseArr R) s0 of (a, s1) \<Rightarrow> (Inr a, s1)))
            | Some a \<Rightarrow>
                (case objs s0 a of
                   Some (SparseArr R) \<Rightarrow> (Inr a, s0)
                 | _ \<Rightarrow>
                     (case alloc (SparseArr (graph_at s0 a)) s0 of (a1, s1) \<Rightarrow> (Inr a1, s1))))"
  define pr where "pr = (case rec of None \<Rightarrow> recurrence_matrix (real_at s0 aS) axis
                          | Some a \<Rightarrow> Inr (graph_at s0 a))"
  obtain gr s1 where g: "g = (gr, s1)" by (cases g)
  have g1: "fresh s0 \<le> fresh s1" "real_at s1 aS = real_at s0 aS"
    "dtype_at s1 aS = dtype_at s0 aS"
    and g2: "case gr of Inl e \<Rightarrow> pr = Inl e
             | Inr rec1 \<Rightarrow> pr = Inr (graph_at s1 rec1) \<and> rec1 < fresh s1"
    using g assms unfolding g_def pr_def
    by (auto simp: alloc_def real_at_def dtype_at_def graph_at_def
        split: option.splits sum.splits obj.splits)
  have pure: "nn_filter recurrence_matrix (dtype_at s0 aS) (real_at s0 aS)
               (map_option (graph_at s0) rec) aggregate axis =
      (case pr of Inl e \<Rightarrow> Inl e
       | Inr R \<Rightarrow> (case norm_axis axis of Inl e \<Rightarrow> Inl e
           | Inr ax \<Rightarrow> if shape0 R \<noteq> shape_at (real_at s0 aS) ax \<or> shape0 R \<noteq> shape1 R
               then Inl ParameterError
               else nn_loop (dtype_at s0 aS) (real_at s0 aS) R (resolve_aggregate aggregate) ax
                      [0..<shape0 R] (real_at s0 aS)))"
    by (simp add: nn_filter_def pr_def Let_def split: option.splits)
  show ?thesis
  proof (cases gr)
    case (Inl e)
    with g g2 pure show ?thesis
      by (simp add: nn_filter_store_def g_def[symmetric])
  next
    case (Inr rec1)
    with g2 have pr: "pr = Inr (graph_at s1 rec1)" and r1: "rec1 < fresh s1" by simp_all
    show ?thesis
    proof (cases "norm_axis axis")
      case (Inl e)
      with g Inr pr pure show ?thesis
        by (simp add: nn_filter_store_def g_def[symmetric])
    next
      case ax: (Inr ax)
      show ?thesis
      proof (cases "shape0 (graph_at s1 rec1) \<noteq> shape_at (real_at s1 aS) ax
                  \<or> shape0 (graph_at s1 rec1) \<noteq> shape1 (graph_at s1 rec1)")
        case True
        with g Inr ax pr pure g1 show ?thesis
          by (auto simp: nn_filter_store_def g_def[symmetric])
      next
        case False
        define s2 where "s2 = snd (alloc (RealArr (dtype_at s1 aS) (real_at s1 aS)) s1)"
        define s_out where "s_out = fresh s1"
        have a2: "alloc (RealArr (dtype_at s1 aS) (real_at s1 aS)) s1 = (s_out, s2)"
          by (simp add: s2_def s_out_def alloc_def)
        have ne: "s_out \<noteq> aS" "s_out \<noteq> rec1"
          using assms(1) g1(1) r1 by (simp_all add: s_out_def)
        have o: "objs s2 s_out = Some (RealArr (dtype_at s0 aS) (real_at s0 aS))"
          using g1(2,3) by (simp add: s2_def s_out_def alloc_def)
        have rd: "real_at s2 aS = real_at s0 aS" "graph_at s2 rec1 = graph_at s1 rec1"
          using ne g1(2) by (simp_all add: s2_def s_out_def alloc_def real_at_def graph_at_def)
        note l = nn_loop_store_refines[OF ne o, of "resolve_aggregate aggregate" ax
            "[0..<shape0 (graph_at s2 rec1)]"]
        have run: "nn_filter_store recurrence_matrix aS rec aggregate axis s0
                     = (case nn_loop_store aS rec1 (resolve_aggregate aggregate) ax
                               [0..<shape0 (graph_at s2 rec1)] s_out s2 of
                          (Inl e, s3) \<Rightarrow> (Inl e, s3) | (Inr u, s3) \<Rightarrow> (Inr s_out, s3))"
          using g Inr ax False a2
          by (simp add: nn_filter_store_def g_def[symmetric] Let_def)
        have pure2: "nn_filter recurrence_matrix (dtype_at s0 aS) (real_at s0 aS)
               (map_option (graph_at s0) rec) aggregate axis
            = nn_loop (dtype_at s0 aS) (real_at s0 aS) (graph_at s1 rec1)
                (resolve_aggregate aggregate) ax
                [0..<shape0 (graph_at s1 rec1)] (real_at s0 aS)"
          using pure pr ax False g1(2) by simp
        from l show ?thesis
          unfolding run pure2 rd by (auto split: prod.splits sum.splits)
      qed
    qed
  qed
qed

text \<open>Likewise for hpss: the store model returns the objects holding what hpss returns.\<close>

lemma hpss_soft_refines:
  assumes "objs s harm = Some (RealArr dh F)" and "objs s perc = Some (RealArr dp G)"
    and "harm < fresh s" and "perc < fresh s"
    and "hpss_soft eps harm perc p s = ((mh, mp), s')"
  shows "objs s' mh = Some (FloatArr (fst (soft_masks eps F G p)))"
    and "objs s' mp = Some (FloatArr (snd (soft_masks eps F G p)))"
  using assms
  by (auto simp: hpss_soft_def soft_masks_def alloc_def put_def real_at_def float_at_def Let_def)

lemma hpss_hard_refines:
  assumes "objs s harm = Some (RealArr dh F)" and "objs s perc = Some (RealArr dp G)"
    and "harm < fresh s" and "perc < fresh s"
    and "hpss_hard harm perc s = ((mh, mp), s')"
  shows "objs s' mh = Some (FloatArr (fst (hard_masks F G)))"
    and "objs s' mp = Some (FloatArr (snd (hard_masks F G)))"
  using assms
  by (auto simp: hpss_hard_def alloc_def real_at_def float_at_def Let_def)

lemma hpss_return_refines:
  assumes "objs s mh = Some (FloatArr M1)" and "objs s mp = Some (FloatArr M2)"
    and "mp < fresh s"
    and "hpss_return S phase mh mp s = (r, s')"
  shows "\<exists>h q. r = Inr (h, q) \<and> objs s' h = Some (obj_of_out (masked S M1 phase))
           \<and> objs s' q = Some (obj_of_out (masked S M2 phase))"
  using assms
  by (auto simp: hpss_return_def alloc_def float_at_def Let_def)

lemma hpss_store_refines:
  assumes "objs s0 aS = Some (case S of RealS A \<Rightarrow> RealArr dt A | ComplexS D \<Rightarrow> ComplexArr D)"
  shows "case hpss_store eps aS k p m s0 of
           (Inl e, s') \<Rightarrow> hpss eps S k p m = Inl e
         | (Inr (h, q), s') \<Rightarrow>
             (\<exists>H P. hpss eps S k p m = Inr (H, P)
                \<and> objs s' h = Some (obj_of_out H) \<and> objs s' q = Some (obj_of_out P))"
proof -
  define mag where "mag = (case S of RealS A \<Rightarrow> A | ComplexS D \<Rightarrow> fst (magphase D))"
  define phase where "phase = (case S of RealS A \<Rightarrow> None | ComplexS D \<Rightarrow> Some (snd (magphase D)))"
  have rd: "(case objs s0 aS of
              Some (RealArr dt A) \<Rightarrow> Inr (A, None)
            | Some (ComplexArr D) \<Rightarrow> Inr (fst (magphase D), Some (snd (magphase D)))
            | _ \<Rightarrow> Inl TypeError) = Inr (mag, phase)"
    using assms unfolding mag_def phase_def by (cases S) simp_all
  have pure: "hpss_responses S k =
      (case kernel_windows k of
          Inl e \<Rightarrow> Inl e
        | Inr (win_harm, win_perc) \<Rightarrow>
            (case median_filter mag (PyInt 1, win_harm) of
               Inl e \<Rightarrow> Inl e
             | Inr harm \<Rightarrow>
                 (case median_filter mag (win_perc, PyInt 1) of
                    Inl e \<Rightarrow> Inl e
                  | Inr perc \<Rightarrow> Inr (mag, phase, harm, perc))))"
    unfolding mag_def phase_def
    by (cases S) (simp_all add: hpss_responses_def split: sum.splits prod.splits)
  show ?thesis
  proof (cases "kernel_windows k")
    case (Inl e)
    with rd pure show ?thesis by (simp add: hpss_store_def hpss_def)
  next
    case w: (Inr ws)
    obtain wh wp where ws: "ws = (wh, wp)" by (cases ws)
    define s1 where "s1 = snd (alloc (RealArr Float64 (NDArray (shape0 mag) (shape1 mag) (\<lambda>i j. 0))) s0)"
    define harm where "harm = fresh s0"
    have a1: "alloc (RealArr Float64 (NDArray (shape0 mag) (shape1 mag) (\<lambda>i j. 0))) s0 = (harm, s1)"
      by (simp add: s1_def harm_def alloc_def)
    show ?thesis
    proof (cases "median_filter mag (PyInt 1, wh)")
      case (Inl e)
      with rd pure w ws a1 show ?thesis by (simp add: hpss_store_def hpss_def)
    next
      case F: (Inr F)
      define s2 where "s2 = put harm (RealArr Float64 F) s1"
      define s3 where "s3 = snd (alloc (RealArr Float64 (NDArray (shape0 mag) (shape1 mag) (\<lambda>i j. 0))) s2)"
      define perc where "perc = fresh s2"
      have a3: "alloc (RealArr Float64 (NDArray (shape0 mag) (shape1 mag) (\<lambda>i j. 0))) s2 = (perc, s3)"
        by (simp add: s3_def perc_def alloc_def)
      show ?thesis
      proof (cases "median_filter mag (wp, PyInt 1)")
        case (Inl e)
        with rd pure w ws a1 F a3 show ?thesis
          by (simp add: hpss_store_def hpss_def s2_def[symmetric])
      next
        case G: (Inr G)
        define s4 where "s4 = put perc (RealArr Float64 G) s3"
        have o4: "objs s4 harm = Some (RealArr Float64 F)" "objs s4 perc = Some (RealArr Float64 G)"
          "harm < fresh s4" "perc < fresh s4"
          by (simp_all add: s4_def s3_def s2_def s1_def put_def alloc_def harm_def perc_def)
        obtain ms s5 where ms: "(if m \<or> p < eps then hpss_hard harm perc s4
                                 else hpss_soft eps harm perc p s4) = (ms, s5)"
          by (cases "if m \<or> p < eps then hpss_hard harm perc s4 else hpss_soft eps harm perc p s4")
        obtain mh mp where mm: "ms = (mh, mp)" by (cases ms)
        have o5: "objs s5 mh = Some (FloatArr (fst (hpss_masks eps F G p m)))"
          "objs s5 mp = Some (FloatArr (snd (hpss_masks eps F G p m)))"
          using ms mm hpss_hard_refines[OF o4, of mh mp s5] hpss_soft_refines[OF o4, of eps p mh mp s5]
          by (auto simp: hpss_masks_def split: if_splits)
        from hpss_masks_store_frame(3)[OF ms] mm have lt: "mp < fresh s5" by simp
        have run: "hpss_store eps aS k p m s0 =
              (if m then (Inr (mh, mp), s5) else hpss_return mag phase mh mp s5)"
          using rd w ws a1 F a3 G ms mm
          by (auto simp: hpss_store_def s2_def[symmetric] s4_def[symmetric] split: if_splits)
        have pure2: "hpss eps S k p m =
              (if m then Inr (RealOut (fst (hpss_masks eps F G p m)),
                              RealOut (snd (hpss_masks eps F G p m)))
               else Inr (masked mag (fst (hpss_masks eps F G p m)) phase,
                         masked mag (snd (hpss_masks eps F G p m)) phase))"
          using pure w ws F G by (simp add: hpss_def case_prod_beta)
        show ?thesis
        proof (cases m)
          case True
          with run pure2 o5 show ?thesis by (simp add: obj_of_out_def)
        next
          case False
          obtain r s' where rr: "hpss_return mag phase mh mp s5 = (r, s')"
            by (cases "hpss_return mag phase mh mp s5")
          from hpss_return_refines[OF o5 lt rr] False run pure2 rr show ?thesis
            by auto
        qed
      qed
    qed
  qed
qed

end
